theory Spec2Isabelle
  imports Main
begin

section \<open>The demo application \<^verbatim>\<open>MoreFindings.py\<close>\<close>

text \<open>
  The program is one Flask module with five routes. Each handler is a few lines of glue
  around one call into a library: the SQLite engine, the shell, the base64 decoder and the
  unpickler, the file system. The handlers are embedded as they are written; the library
  calls are the fields of an environment record, so that a theorem about a handler holds
  for every behaviour of the libraries. Fragments of the libraries are modelled further
  down, where a statement needs the engine or the unpickler at a concrete input.

  Strings are byte strings (Python's text in UTF-8).
\<close>

subsection \<open>Python values and exceptions\<close>

text \<open>
  The objects that the statements below need: \<^verbatim>\<open>None\<close>, texts, tuples, globals by module
  and name, \<open>PyError t\<close> for an instance of a library exception class whose text is \<open>t\<close>, and
  \<open>PyInstance c\<close> for an instance of a class \<open>c\<close> that executed code has defined.

  A raised exception is either an instance of class \<^verbatim>\<open>Exception\<close>, which a clause
  \<^verbatim>\<open>except Exception as e\<close> catches and binds to \<^verbatim>\<open>e\<close>, or one outside that class
  (\<^verbatim>\<open>SystemExit\<close>, \<^verbatim>\<open>KeyboardInterrupt\<close>, \<^verbatim>\<open>GeneratorExit\<close>, given by its name), which such a
  clause lets through.
\<close>

datatype pyobj = PyNone | PyStr string | PyTuple "pyobj list" | PyGlobal string string
  | PyError string | PyInstance string

datatype pyexc = PyException pyobj | PyBaseException string

subsection \<open>Responses\<close>

text \<open>
  A handler returns a text (Flask answers it as HTML with status 200), a \<^verbatim>\<open>jsonify\<close>
  object (status 200), or a pair of such an object and a status. The JSON objects of this
  program have string values only.
\<close>

datatype payload = Html string | Json "(string \<times> string) list"

record response =
  status :: nat
  body :: payload

definition html_response :: "string \<Rightarrow> response" where
  "html_response s = \<lparr>status = 200, body = Html s\<rparr>"

definition jsonify :: "(string \<times> string) list \<Rightarrow> response" where
  "jsonify kvs = \<lparr>status = 200, body = Json kvs\<rparr>"

definition with_status :: "response \<Rightarrow> nat \<Rightarrow> response" where
  "with_status r n = r\<lparr>status := n\<rparr>"

subsection \<open>The store and the world\<close>

datatype sqlval = SqlNull | SqlInt int | SqlText string

record table =
  columns :: "(string \<times> string) list"
  rows :: "sqlval list list"

text \<open>
  The file \<^verbatim>\<open>users.db\<close> is either something that the engine cannot open as a database, or
  a database: the list of its schema objects (tables, views, indexes) under the names they
  were created with. A file that is not there is the empty database, which is what a
  connection makes of it. The engine compares names without regard to the case of ASCII
  letters.
\<close>

datatype dbobject = Table table | View | Index

type_synonym catalogue = "(string \<times> dbobject) list"

datatype dbfile = NotADatabase | Database catalogue

definition lower :: "char \<Rightarrow> char" where
  "lower c =
     (case map_of (zip ''ABCDEFGHIJKLMNOPQRSTUVWXYZ'' ''abcdefghijklmnopqrstuvwxyz'') c of
        None \<Rightarrow> c
      | Some l \<Rightarrow> l)"

definition same_name :: "string \<Rightarrow> string \<Rightarrow> bool" where
  "same_name a b = (map lower a = map lower b)"

fun find_object :: "catalogue \<Rightarrow> string \<Rightarrow> dbobject option" where
  "find_object [] n = None"
| "find_object ((m, ob) # cat) n = (if same_name m n then Some ob else find_object cat n)"

text \<open>
  The world of a request: the database file, the other files, what has been printed, and
  the names that the module's code resolves when it runs (its globals over the builtins),
  which code run inside the process can read and rebind.
\<close>

record world =
  db :: dbfile
  files :: "string \<rightharpoonup> string"
  stdout :: "string list"
  namespace :: "string \<rightharpoonup> pyobj"

text \<open>
  The library calls. \<open>sql_execute\<close> is a connection to \<^verbatim>\<open>users.db\<close>, \<^verbatim>\<open>cursor.execute\<close> of
  one statement, reading the result set, commit and close: it returns the rows or raises,
  and the database file as the statement left it. \<open>popen_read\<close> is
  \<^verbatim>\<open>os.popen(cmd).read()\<close>, which runs the command in a shell and so may change the world,
  and which raises when the command cannot be started or its output cannot be decoded.
  \<open>pickle_loads\<close> reconstructs an object and runs whatever code the payload names;
  \<open>str_obj\<close> is \<^verbatim>\<open>str(x)\<close> where the conversion is code that the process has been given (the
  object's own \<^verbatim>\<open>__str__\<close>, or whatever \<^verbatim>\<open>str\<close> has been rebound to); \<open>rebound_jsonify\<close> is the
  call of whatever \<^verbatim>\<open>jsonify\<close> has been rebound to; \<open>open_read\<close> is \<^verbatim>\<open>open(path, "r")\<close>
  followed by \<^verbatim>\<open>read()\<close>.

  The decoder and the file system run no code of the caller's and raise instances of
  \<^verbatim>\<open>Exception\<close> only (\<^verbatim>\<open>binascii.Error\<close>, \<^verbatim>\<open>OSError\<close>, \<^verbatim>\<open>UnicodeDecodeError\<close>): their
  failure is the text of that exception, on the left. Storage faults (a file that cannot be
  written, a lock held by another process, a full disk) are not modelled.
\<close>

record env =
  sql_execute :: "dbfile \<Rightarrow> string \<Rightarrow> (pyexc + sqlval list list) \<times> dbfile"
  popen_read :: "string \<Rightarrow> world \<Rightarrow> (pyexc + string) \<times> world"
  b64decode :: "string \<Rightarrow> string + string"
  pickle_loads :: "string \<Rightarrow> world \<Rightarrow> (pyexc + pyobj) \<times> world"
  str_obj :: "pyobj \<Rightarrow> world \<Rightarrow> (pyexc + string) \<times> world"
  rebound_jsonify :: "(string \<times> string) list \<Rightarrow> world \<Rightarrow> (pyexc + response) \<times> world"
  open_read :: "string \<Rightarrow> world \<Rightarrow> string + string"

text \<open>The rows of the users table; none when there is no such table.\<close>

definition user_rows :: "world \<Rightarrow> sqlval list set" where
  "user_rows w =
     (case db w of
        NotADatabase \<Rightarrow> {}
      | Database cat \<Rightarrow>
          (case find_object cat ''users'' of Some (Table t) \<Rightarrow> set (rows t) | _ \<Rightarrow> {}))"

subsection \<open>Module constants and import\<close>

definition API_KEY :: string where
  "API_KEY = ''12345-SECRET-KEY''"

definition DB_FILE :: string where
  "DB_FILE = ''users.db''"

definition flask_jsonify :: pyobj where
  "flask_jsonify = PyGlobal ''flask'' ''jsonify''"

definition builtins_str :: pyobj where
  "builtins_str = PyGlobal ''builtins'' ''str''"

text \<open>
  Importing the module binds its names. \<open>boot key w\<close> is the world \<open>w\<close> with the names of
  the module whose seventh line gives the constant the value \<open>key\<close>; the program as it is
  written runs in \<open>boot API_KEY w\<close>.
\<close>

definition module_namespace :: "string \<Rightarrow> (string \<rightharpoonup> pyobj)" where
  "module_namespace key =
     [''API_KEY'' \<mapsto> PyStr key, ''DB_FILE'' \<mapsto> PyStr DB_FILE,
      ''jsonify'' \<mapsto> flask_jsonify, ''str'' \<mapsto> builtins_str]"

definition boot :: "string \<Rightarrow> world \<Rightarrow> world" where
  "boot key w = w\<lparr>namespace := module_namespace key\<rparr>"

subsection \<open>Schema initialisation\<close>

definition users_columns :: "(string \<times> string) list" where
  "users_columns =
     [(''id'', ''INTEGER PRIMARY KEY''), (''username'', ''TEXT''), (''password'', ''TEXT'')]"

definition create_users_sql :: string where
  "create_users_sql =
     ''CREATE TABLE IF NOT EXISTS users (id INTEGER PRIMARY KEY, username TEXT, password TEXT)''"

text \<open>
  \<^verbatim>\<open>init_db\<close> connects, executes the one statement, commits and closes; an error of the
  engine is not caught.
\<close>

definition init_db :: "env \<Rightarrow> world \<Rightarrow> (pyexc + unit) \<times> world" where
  "init_db e w =
     (case sql_execute e (db w) create_users_sql of
        (Inl x, d) \<Rightarrow> (Inl x, w\<lparr>db := d\<rparr>)
      | (Inr rs, d) \<Rightarrow> (Inr (), w\<lparr>db := d\<rparr>))"

subsection \<open>The handlers\<close>

definition home :: "response" where
  "home = html_response (''Vulnerable Flask App '' @ [CHR 0xE2, CHR 0x80, CHR 0x93]
     @ '' OWASP Demo'')"

text \<open>An f-string renders a missing form field, \<^verbatim>\<open>None\<close>, as the text \<^verbatim>\<open>None\<close>.\<close>

definition fmt :: "string option \<Rightarrow> string" where
  "fmt v = (case v of None \<Rightarrow> ''None'' | Some s \<Rightarrow> s)"

definition login_query :: "string option \<Rightarrow> string option \<Rightarrow> string" where
  "login_query username password =
     ''SELECT * FROM users WHERE username='' @ [CHR 0x27] @ fmt username @ [CHR 0x27]
       @ '' AND password='' @ [CHR 0x27] @ fmt password @ [CHR 0x27]"

definition fetchone :: "'a list \<Rightarrow> 'a option" where
  "fetchone rs = (case rs of [] \<Rightarrow> None | r # _ \<Rightarrow> Some r)"

text \<open>
  Lines 28 to 36 of \<^verbatim>\<open>login\<close>: the credential lookup (the spec's
  \<^verbatim>\<open>findByCredentials\<close>). An error of the engine is not caught.
\<close>

definition find_by_credentials ::
  "env \<Rightarrow> string option \<Rightarrow> string option \<Rightarrow> world \<Rightarrow> (pyexc + sqlval list option) \<times> world"
where
  "find_by_credentials e username password w =
     (let query = login_query username password;
          w1 = w\<lparr>stdout := stdout w @ [''[DEBUG] Executing query: '' @ query]\<rparr>
      in case sql_execute e (db w1) query of
           (Inl x, d) \<Rightarrow> (Inl x, w1\<lparr>db := d\<rparr>)
         | (Inr rs, d) \<Rightarrow> (Inr (fetchone rs), w1\<lparr>db := d\<rparr>))"

definition login :: "env \<Rightarrow> (string \<rightharpoonup> string) \<Rightarrow> world \<Rightarrow> (pyexc + response) \<times> world" where
  "login e form w =
     (let username = form ''username'';
          password = form ''password''
      in case find_by_credentials e username password w of
           (Inl x, w1) \<Rightarrow> (Inl x, w1)
         | (Inr (Some r), w1) \<Rightarrow> (Inr (jsonify [(''message'', ''Login successful'')]), w1)
         | (Inr None, w1) \<Rightarrow>
             (Inr (with_status (jsonify [(''message'', ''Invalid credentials'')]) 401), w1))"

text \<open>\<^verbatim>\<open>ping\<close> has no \<^verbatim>\<open>try\<close>: what \<^verbatim>\<open>os.popen(...).read()\<close> raises leaves the handler.\<close>

definition ping :: "env \<Rightarrow> (string \<rightharpoonup> string) \<Rightarrow> world \<Rightarrow> (pyexc + response) \<times> world" where
  "ping e args w =
     (let host = (case args ''host'' of None \<Rightarrow> ''127.0.0.1'' | Some h \<Rightarrow> h)
      in case popen_read e (''ping -c 1 '' @ host) w of
           (Inl x, w1) \<Rightarrow> (Inl x, w1)
         | (Inr output, w1) \<Rightarrow> (Inr (html_response (''<pre>'' @ output @ ''</pre>'')), w1))"

text \<open>
  In \<^verbatim>\<open>deserialize\<close> the names \<^verbatim>\<open>str\<close> and \<^verbatim>\<open>jsonify\<close> are looked up after the payload's code
  has run. \<open>py_str\<close> is the call \<^verbatim>\<open>str(x)\<close>: with \<^verbatim>\<open>str\<close> bound to the builtin it is the text
  of \<^verbatim>\<open>None\<close>, of a text and of a library exception, and code of the object for anything
  else. \<open>call_jsonify\<close> is the call \<^verbatim>\<open>jsonify(d)\<close>: the original while the name is bound to
  it.
\<close>

definition py_str :: "env \<Rightarrow> pyobj \<Rightarrow> world \<Rightarrow> (pyexc + string) \<times> world" where
  "py_str e x w =
     (if namespace w ''str'' = Some builtins_str then
        (case x of
           PyNone \<Rightarrow> (Inr ''None'', w)
         | PyStr s \<Rightarrow> (Inr s, w)
         | PyError t \<Rightarrow> (Inr t, w)
         | _ \<Rightarrow> str_obj e x w)
      else str_obj e x w)"

definition call_jsonify ::
  "env \<Rightarrow> (string \<times> string) list \<Rightarrow> world \<Rightarrow> (pyexc + response) \<times> world"
where
  "call_jsonify e kvs w =
     (if namespace w ''jsonify'' = Some flask_jsonify then (Inr (jsonify kvs), w)
      else rebound_jsonify e kvs w)"

text \<open>
  The clause \<^verbatim>\<open>except Exception as e: return jsonify({"error": str(e)}), 400\<close>. An exception
  outside \<^verbatim>\<open>Exception\<close> is not caught, and what \<^verbatim>\<open>str(e)\<close> or \<^verbatim>\<open>jsonify\<close> raise inside the
  clause leaves the handler.
\<close>

definition except_clause :: "env \<Rightarrow> pyexc \<Rightarrow> world \<Rightarrow> (pyexc + response) \<times> world" where
  "except_clause e x w =
     (case x of
        PyBaseException n \<Rightarrow> (Inl x, w)
      | PyException ex \<Rightarrow>
          (case py_str e ex w of
             (Inl y, w1) \<Rightarrow> (Inl y, w1)
           | (Inr t, w1) \<Rightarrow>
               (case call_jsonify e [(''error'', t)] w1 of
                  (Inl y, w2) \<Rightarrow> (Inl y, w2)
                | (Inr r, w2) \<Rightarrow> (Inr (with_status r 400), w2))))"

definition deserialize :: "env \<Rightarrow> string \<Rightarrow> world \<Rightarrow> (pyexc + response) \<times> world" where
  "deserialize e data w =
     (case b64decode e data of
        Inl t \<Rightarrow> except_clause e (PyException (PyError t)) w
      | Inr bytes \<Rightarrow>
          (case pickle_loads e bytes w of
             (Inl x, w1) \<Rightarrow> except_clause e x w1
           | (Inr obj, w1) \<Rightarrow>
               (case py_str e obj w1 of
                  (Inl x, w2) \<Rightarrow> except_clause e x w2
                | (Inr s, w2) \<Rightarrow>
                    (case call_jsonify e [(''result'', s)] w2 of
                       (Inl x, w3) \<Rightarrow> except_clause e x w3
                     | (Inr r, w3) \<Rightarrow> (Inr r, w3)))))"

definition read_file :: "env \<Rightarrow> (string \<rightharpoonup> string) \<Rightarrow> world \<Rightarrow> (pyexc + response) \<times> world" where
  "read_file e args w =
     (let filename = (case args ''file'' of None \<Rightarrow> ''/etc/passwd'' | Some f \<Rightarrow> f)
      in case open_read e filename w of
           Inr contents \<Rightarrow> (Inr (html_response (''<pre>'' @ contents @ ''</pre>'')), w)
         | Inl t \<Rightarrow> (Inr (jsonify [(''error'', t)]), w))"

subsection \<open>The router\<close>

datatype request =
    GetHome
  | PostLogin "string \<rightharpoonup> string"
  | GetPing "string \<rightharpoonup> string"
  | PostDeserialize string
  | GetReadfile "string \<rightharpoonup> string"

fun app :: "env \<Rightarrow> request \<Rightarrow> world \<Rightarrow> (pyexc + response) \<times> world" where
  "app e GetHome w = (Inr home, w)"
| "app e (PostLogin form) w = login e form w"
| "app e (GetPing args) w = ping e args w"
| "app e (PostDeserialize data) w = deserialize e data w"
| "app e (GetReadfile args) w = read_file e args w"

section \<open>A fragment of the SQLite engine\<close>

text \<open>
  The engine is a library, not code of this program. The statements below that depend on
  what the engine answers use this fragment of it. It has the one statement of \<^verbatim>\<open>init_db\<close>,
  and statements of the shape \<^verbatim>\<open>SELECT * FROM users WHERE c = 'lit' AND ...\<close> over the
  columns \<^verbatim>\<open>username\<close> and \<^verbatim>\<open>password\<close>, with SQLite's lexical rules for blanks, \<^verbatim>\<open>--\<close>
  comments (up to the next newline or the end of the text) and string literals (closed by
  a quote that is not doubled). Whatever lies outside the fragment is \<open>Unknown\<close>,
  respectively \<open>None\<close>: the fragment says nothing about it. A string literal that is never
  closed is an illegal token, and the engine rejects every statement that has one.
\<close>

datatype token = TIdent string | TStar | TEq | TStr string

datatype lexed = Toks "token list" | Illegal | Unknown

fun lex_string :: "string \<Rightarrow> (string \<times> string) option" where
  "lex_string [] = None"
| "lex_string (c # cs) =
     (if c = CHR 0x27 then
        (case cs of
           [] \<Rightarrow> Some ([], [])
         | d # ds \<Rightarrow>
             if d = CHR 0x27 then map_option (apfst ((#) CHR 0x27)) (lex_string ds)
             else Some ([], cs))
      else map_option (apfst ((#) c)) (lex_string cs))"

definition skip_comment :: "string \<Rightarrow> string" where
  "skip_comment cs = drop 1 (dropWhile (\<lambda>c. c \<noteq> CHR 0x0A) cs)"

definition is_space :: "char \<Rightarrow> bool" where
  "is_space c = (c \<in> set [CHR 0x20, CHR 0x09, CHR 0x0A, CHR 0x0C, CHR 0x0D])"

definition is_ident_start :: "char \<Rightarrow> bool" where
  "is_ident_start c = (c \<in> set ''abcdefghijklmnopqrstuvwxyzABCDEFGHIJKLMNOPQRSTUVWXYZ_'')"

definition is_ident_char :: "char \<Rightarrow> bool" where
  "is_ident_char c = (is_ident_start c \<or> c \<in> set ''0123456789'')"

definition lex_cons :: "token \<Rightarrow> lexed \<Rightarrow> lexed" where
  "lex_cons t r = (case r of Toks ts \<Rightarrow> Toks (t # ts) | Illegal \<Rightarrow> Illegal | Unknown \<Rightarrow> Unknown)"

lemma lex_string_length: "lex_string cs = Some (s, rest) \<Longrightarrow> length rest \<le> length cs"
proof (induction cs arbitrary: s rest rule: lex_string.induct)
  case 1
  then show ?case by simp
next
  case (2 c cs)
  then show ?case
    by (auto split: if_splits list.splits) (force+)?
qed

lemma skip_comment_length: "length (skip_comment cs) \<le> length cs"
  unfolding skip_comment_def
  by (simp add: le_diff_conv le_SucI length_dropWhile_le)

function lex :: "string \<Rightarrow> lexed" where
  "lex [] = Toks []"
| "lex (c # cs) =
     (if is_space c then lex cs
      else if c = CHR ''-'' then
        (case cs of
           [] \<Rightarrow> Unknown
         | d # ds \<Rightarrow> if d = CHR ''-'' then lex (skip_comment ds) else Unknown)
      else if c = CHR ''*'' then lex_cons TStar (lex cs)
      else if c = CHR ''='' then lex_cons TEq (lex cs)
      else if c = CHR 0x27 then
        (case lex_string cs of
           None \<Rightarrow> Illegal
         | Some (s, rest) \<Rightarrow> lex_cons (TStr s) (lex rest))
      else if is_ident_start c then
        (case dropWhile is_ident_char cs of
           [] \<Rightarrow> Toks [TIdent (c # takeWhile is_ident_char cs)]
         | d # ds \<Rightarrow>
             if d = CHR 0x27 then Unknown
             else lex_cons (TIdent (c # takeWhile is_ident_char cs)) (lex (d # ds)))
      else Unknown)"
  by pat_completeness auto
termination
proof (relation "measure length", goal_cases)
  case 1 show ?case by simp
next
  case (2 c cs) then show ?case by simp
next
  case (3 c cs d ds) then show ?case using skip_comment_length[of ds] by simp
next
  case (4 c cs) then show ?case by simp
next
  case (5 c cs) then show ?case by simp
next
  case (6 c cs x2 s rest) then show ?case using lex_string_length[of cs s rest] by simp
next
  case (7 c cs d ds)
  have "length (dropWhile is_ident_char cs) \<le> length cs" by (rule length_dropWhile_le)
  with 7 show ?case by simp
qed


fun parse_conds :: "token list \<Rightarrow> (string \<times> string) list option" where
  "parse_conds (TIdent c # TEq # TStr s # rest) =
     (if c = ''username'' \<or> c = ''password'' then
        (case rest of
           [] \<Rightarrow> Some [(c, s)]
         | TIdent a # rest' \<Rightarrow>
             if a = ''AND'' then map_option ((#) (c, s)) (parse_conds rest') else None
         | _ \<Rightarrow> None)
      else None)"
| "parse_conds _ = None"

definition parse_select :: "token list \<Rightarrow> (string \<times> string) list option" where
  "parse_select ts =
     (case ts of
        TIdent s # TStar # TIdent f # TIdent t # TIdent w # rest \<Rightarrow>
          if s = ''SELECT'' \<and> f = ''FROM'' \<and> t = ''users'' \<and> w = ''WHERE''
          then parse_conds rest else None
      | _ \<Rightarrow> None)"

definition column_index :: "string \<Rightarrow> nat" where
  "column_index c = (if c = ''username'' then 1 else 2)"

definition cond_holds :: "sqlval list \<Rightarrow> string \<times> string \<Rightarrow> bool" where
  "cond_holds r cs = (r ! column_index (fst cs) = SqlText (snd cs))"

definition user_row :: "sqlval list \<Rightarrow> bool" where
  "user_row r =
     (case r of
        [SqlInt i, u, p] \<Rightarrow> (case u of SqlInt _ \<Rightarrow> False | _ \<Rightarrow> True)
                          \<and> (case p of SqlInt _ \<Rightarrow> False | _ \<Rightarrow> True)
      | _ \<Rightarrow> False)"

datatype sqlres = Rows "sqlval list list" | Rejected

text \<open>
  The query: a file that is not a database, or a database with no table of that name,
  makes the engine reject the statement; the rows of a well-formed users table are
  scanned in stored order.
\<close>

definition select_users :: "dbfile \<Rightarrow> (string \<times> string) list \<Rightarrow> sqlres option" where
  "select_users d conds =
     (case d of
        NotADatabase \<Rightarrow> Some Rejected
      | Database cat \<Rightarrow>
          (case find_object cat ''users'' of
             None \<Rightarrow> Some Rejected
           | Some Index \<Rightarrow> Some Rejected
           | Some View \<Rightarrow> None
           | Some (Table t) \<Rightarrow>
               if columns t = users_columns \<and> list_all user_row (rows t)
               then Some (Rows (filter (\<lambda>r. list_all (cond_holds r) conds) (rows t)))
               else None))"

text \<open>
  \<^verbatim>\<open>CREATE TABLE IF NOT EXISTS users (...)\<close>: beside a table or a view of that name the
  statement does nothing, beside an index of that name the engine rejects it, and
  otherwise the table is added with no rows.
\<close>

definition create_users :: "dbfile \<Rightarrow> sqlres \<times> dbfile" where
  "create_users d =
     (case d of
        NotADatabase \<Rightarrow> (Rejected, d)
      | Database cat \<Rightarrow>
          (case find_object cat ''users'' of
             None \<Rightarrow>
               (Rows [], Database (cat @ [(''users'', Table \<lparr>columns = users_columns, rows = []\<rparr>)]))
           | Some Index \<Rightarrow> (Rejected, d)
           | Some _ \<Rightarrow> (Rows [], d)))"

definition sqlite :: "dbfile \<Rightarrow> string \<Rightarrow> (sqlres \<times> dbfile) option" where
  "sqlite d q =
     (if q = create_users_sql then Some (create_users d)
      else if CHR 0x00 \<in> set q then None
      else case lex q of
        Illegal \<Rightarrow> Some (Rejected, d)
      | Unknown \<Rightarrow> None
      | Toks ts \<Rightarrow>
          (case parse_select ts of
             None \<Rightarrow> None
           | Some conds \<Rightarrow> map_option (\<lambda>r. (r, d)) (select_users d conds)))"

text \<open>
  An environment agrees with the fragment when its engine returns the fragment's rows and
  database, and raises an \<^verbatim>\<open>Exception\<close> (\<^verbatim>\<open>sqlite3.OperationalError\<close>,
  \<^verbatim>\<open>sqlite3.DatabaseError\<close>) where the fragment rejects.
\<close>

definition engine_ok :: "env \<Rightarrow> bool" where
  "engine_ok e =
     (\<forall>d q. case sqlite d q of
              None \<Rightarrow> True
            | Some (Rows rs, d') \<Rightarrow> sql_execute e d q = (Inr rs, d')
            | Some (Rejected, d') \<Rightarrow> (\<exists>t. sql_execute e d q = (Inl (PyException t), d')))"

text \<open>
  \<^verbatim>\<open>execute\<close> runs one statement and raises when the text holds more than one; a statement
  that begins with \<^verbatim>\<open>SELECT\<close> writes nothing, whatever else it is.
\<close>

definition select_reads_only :: "env \<Rightarrow> bool" where
  "select_reads_only e = (\<forall>d q. take 6 q = ''SELECT'' \<longrightarrow> snd (sql_execute e d q) = d)"

definition sqlite_execute :: "dbfile \<Rightarrow> string \<Rightarrow> (pyexc + sqlval list list) \<times> dbfile" where
  "sqlite_execute d q =
     (case sqlite d q of
        Some (Rows rs, d') \<Rightarrow> (Inr rs, d')
      | Some (Rejected, d') \<Rightarrow> (Inl (PyException (PyError ''sqlite3.OperationalError'')), d')
      | None \<Rightarrow> (Inl (PyException (PyError ''outside the fragment'')), d))"

section \<open>Fragments of the decoder and of the unpickler\<close>

text \<open>
  The base64 decoder on canonical input: characters of the alphabet in groups of four,
  padded with \<^verbatim>\<open>=\<close> in the last group only. Other input is outside the fragment.
\<close>

fun index_of :: "'a \<Rightarrow> 'a list \<Rightarrow> nat option" where
  "index_of x [] = None"
| "index_of x (y # ys) = (if x = y then Some 0 else map_option Suc (index_of x ys))"

definition b64_value :: "char \<Rightarrow> nat option" where
  "b64_value c =
     index_of c ''ABCDEFGHIJKLMNOPQRSTUVWXYZabcdefghijklmnopqrstuvwxyz0123456789+/''"

fun b64_fragment :: "string \<Rightarrow> string option" where
  "b64_fragment (a # b # c # d # rest) =
     (case (b64_value a, b64_value b) of
        (Some i, Some j) \<Rightarrow>
          if c = CHR ''='' then
            (if d = CHR ''='' \<and> rest = [] then Some [char_of (i * 4 + j div 16)] else None)
          else
            (case b64_value c of
               None \<Rightarrow> None
             | Some k \<Rightarrow>
                 if d = CHR ''='' then
                   (if rest = []
                    then Some [char_of (i * 4 + j div 16), char_of (j mod 16 * 16 + k div 4)]
                    else None)
                 else
                   (case b64_value d of
                      None \<Rightarrow> None
                    | Some l \<Rightarrow>
                        map_option
                          (\<lambda>r. char_of (i * 4 + j div 16) # char_of (j mod 16 * 16 + k div 4)
                                 # char_of (k mod 4 * 64 + l) # r)
                          (b64_fragment rest)))
      | _ \<Rightarrow> None)"
| "b64_fragment [] = Some []"
| "b64_fragment _ = None"

text \<open>
  The unpickler on the protocol-0 opcodes \<^verbatim>\<open>N\<close> (push \<^verbatim>\<open>None\<close>), \<^verbatim>\<open>(\<close> (push a mark),
  \<^verbatim>\<open>t\<close> (tuple of what is above the mark), \<^verbatim>\<open>V\<close> (a text line), \<^verbatim>\<open>c\<close> (the global named by the next
  two lines), \<^verbatim>\<open>R\<close> (call the callable below the argument tuple, push the result) and \<^verbatim>\<open>.\<close>
  (stop and return the top of the stack). The stack has its top at the head. Input that
  ends where an opcode is expected raises \<^verbatim>\<open>EOFError\<close>. A global of module \<^verbatim>\<open>__main__\<close> is the
  value that the name has in the running module. Three callables are modelled:
  \<^verbatim>\<open>sys.exit\<close>, which raises \<^verbatim>\<open>SystemExit\<close>; \<^verbatim>\<open>os.remove\<close> on the database file where there is
  one, which deletes it, so that the next connection finds the empty database; and
  \<^verbatim>\<open>builtins.exec\<close> on the one-line program \<open>raise_unprintable\<close>, which defines an exception
  class whose \<^verbatim>\<open>__str__\<close> divides by zero and raises an instance of it. Whatever else a payload
  asks for is outside the fragment.
\<close>

definition raise_unprintable :: string where
  "raise_unprintable = ''raise type('E',(Exception,),{'__str__':lambda s:1/0})()''"

datatype slot = Obj pyobj | Mark

definition read_line :: "string \<Rightarrow> (string \<times> string) option" where
  "read_line s =
     (if CHR 0x0A \<in> set s
      then Some (takeWhile (\<lambda>c. c \<noteq> CHR 0x0A) s, tl (dropWhile (\<lambda>c. c \<noteq> CHR 0x0A) s))
      else None)"

fun pop_mark :: "slot list \<Rightarrow> (pyobj list \<times> slot list) option" where
  "pop_mark [] = None"
| "pop_mark (Mark # st) = Some ([], st)"
| "pop_mark (Obj x # st) = map_option (apfst (\<lambda>xs. xs @ [x])) (pop_mark st)"

definition py_call :: "pyobj \<Rightarrow> pyobj list \<Rightarrow> world \<Rightarrow> ((pyexc + pyobj) \<times> world) option" where
  "py_call f args w =
     (if f = PyGlobal ''sys'' ''exit'' \<and> args = []
        then Some (Inl (PyBaseException ''SystemExit''), w)
      else if f = PyGlobal ''os'' ''remove'' \<and> args = [PyStr DB_FILE] \<and> db w \<noteq> Database []
        then Some (Inr PyNone, w\<lparr>db := Database []\<rparr>)
      else if f = PyGlobal ''builtins'' ''exec'' \<and> args = [PyStr raise_unprintable]
        then Some (Inl (PyException (PyInstance ''E'')), w)
      else None)"

definition find_class :: "string \<Rightarrow> string \<Rightarrow> world \<Rightarrow> pyobj option" where
  "find_class m n w =
     (if m = ''__main__'' then namespace w n
      else if (m, n) = (''sys'', ''exit'') \<or> (m, n) = (''os'', ''remove'')
              \<or> (m, n) = (''builtins'', ''exec'')
        then Some (PyGlobal m n)
      else None)"

definition plain_text :: "string \<Rightarrow> bool" where
  "plain_text l = list_all (\<lambda>c. c \<noteq> CHR 0x5C \<and> (of_char c :: nat) < 128) l"

lemma read_line_length: "read_line s = Some (l, r) \<Longrightarrow> length r < length s"
proof -
  assume a: "read_line s = Some (l, r)"
  then have n: "CHR 0x0A \<in> set s" and r: "r = tl (dropWhile (\<lambda>c. c \<noteq> CHR 0x0A) s)"
    by (auto simp: read_line_def split: if_splits)
  from n have "dropWhile (\<lambda>c. c \<noteq> CHR 0x0A) s \<noteq> []"
    by (auto simp: dropWhile_eq_Nil_conv)
  then have "length (tl (dropWhile (\<lambda>c. c \<noteq> CHR 0x0A) s)) < length (dropWhile (\<lambda>c. c \<noteq> CHR 0x0A) s)"
    by (cases "dropWhile (\<lambda>c. c \<noteq> CHR 0x0A) s") simp_all
  also have "\<dots> \<le> length s" by (rule length_dropWhile_le)
  finally show ?thesis using r by simp
qed

function unpickle :: "string \<Rightarrow> slot list \<Rightarrow> world \<Rightarrow> ((pyexc + pyobj) \<times> world) option" where
  "unpickle [] st w = Some (Inl (PyException (PyError ''Ran out of input'')), w)"
| "unpickle (opc # cs) st w =
     (if opc = CHR ''.'' then
        (case st of Obj x # _ \<Rightarrow> Some (Inr x, w) | _ \<Rightarrow> None)
      else if opc = CHR ''N'' then unpickle cs (Obj PyNone # st) w
      else if opc = CHR ''('' then unpickle cs (Mark # st) w
      else if opc = CHR ''t'' then
        (case pop_mark st of
           None \<Rightarrow> None
         | Some (xs, st') \<Rightarrow> unpickle cs (Obj (PyTuple xs) # st') w)
      else if opc = CHR ''V'' then
        (case read_line cs of
           None \<Rightarrow> None
         | Some (l, rest) \<Rightarrow>
             if plain_text l then unpickle rest (Obj (PyStr l) # st) w else None)
      else if opc = CHR ''c'' then
        (case read_line cs of
           None \<Rightarrow> None
         | Some (m, rest) \<Rightarrow>
             (case read_line rest of
                None \<Rightarrow> None
              | Some (n, rest') \<Rightarrow>
                  (case find_class m n w of
                     None \<Rightarrow> None
                   | Some v \<Rightarrow> unpickle rest' (Obj v # st) w)))
      else if opc = CHR ''R'' then
        (case st of
           Obj (PyTuple args) # Obj f # st' \<Rightarrow>
             (case py_call f args w of
                None \<Rightarrow> None
              | Some (Inl x, w') \<Rightarrow> Some (Inl x, w')
              | Some (Inr v, w') \<Rightarrow> unpickle cs (Obj v # st') w')
         | _ \<Rightarrow> None)
      else None)"
  by pat_completeness auto
termination
proof (relation "measure (\<lambda>(s, st, w). length s)", goal_cases)
  case 1 show ?case by simp
next
  case (5 opc cs st w x2 l rest)
  then show ?case using read_line_length[of cs l rest] by simp
next
  case (6 opc cs st w x2 m rest x2a n rest' x2b)
  then show ?case using read_line_length[of cs m rest] read_line_length[of rest n rest'] by simp
qed simp_all

section \<open>The program's own file\<close>

text \<open>
  The module is a file of the world it runs in, and its seventh line holds the constant.
  \<open>script_text key\<close> is the text of \<^verbatim>\<open>MoreFindings.py\<close> with \<open>key\<close> as the constant, and
  \<open>installed key w\<close> is the world \<open>w\<close> with that file in the working directory and the
  module imported.
\<close>

definition join_lines :: "string list \<Rightarrow> string" where
  "join_lines ls = (case ls of [] \<Rightarrow> [] | l # ls' \<Rightarrow> l @ concat (map (\<lambda>x. CHR 0x0A # x) ls'))"

definition script_lines :: "string \<Rightarrow> string list" where
  \<open>script_lines key =
     [''from flask import Flask, request, jsonify'',
      ''import sqlite3, os, pickle, base64'',
      [],
      ''app = Flask(__name__)'',
      [],
      ''# '' @ [CHR 0xF0, CHR 0x9F, CHR 0x9A, CHR 0xA8] @ '' Hardcoded secret (sensitive info disclosure)'',
      ''API_KEY = "'' @ key @ ''"'',
      [],
      ''DB_FILE = "users.db"'',
      [],
      ''def init_db():'',
      ''    conn = sqlite3.connect(DB_FILE)'',
      ''    c = conn.cursor()'',
      ''    c.execute("CREATE TABLE IF NOT EXISTS users (id INTEGER PRIMARY KEY, username TEXT, password TEXT)")'',
      ''    conn.commit()'',
      ''    conn.close()'',
      [],
      ''@app.route("/")'',
      ''def home():'',
      ''    return "Vulnerable Flask App '' @ [CHR 0xE2, CHR 0x80, CHR 0x93] @ '' OWASP Demo"'',
      [],
      ''# '' @ [CHR 0xF0, CHR 0x9F, CHR 0x9A, CHR 0xA8] @ '' SQL Injection vulnerability'',
      ''@app.route("/login", methods=["POST"])'',
      ''def login():'',
      ''    username = request.form.get("username")'',
      ''    password = request.form.get("password")'',
      [],
      ''    conn = sqlite3.connect(DB_FILE)'',
      ''    c = conn.cursor()'',
      [],
      ''    query = f"SELECT * FROM users WHERE username='{username}' AND password='{password}'"'',
      ''    print("[DEBUG] Executing query:", query)'',
      [],
      ''    c.execute(query)  # '' @ [CHR 0xF0, CHR 0x9F, CHR 0x9A, CHR 0xA8] @ '' vulnerable line'',
      ''    result = c.fetchone()'',
      ''    conn.close()'',
      [],
      ''    if result:'',
      ''        return jsonify({"message": "Login successful"})'',
      ''    else:'',
      ''        return jsonify({"message": "Invalid credentials"}), 401'',
      [],
      ''# '' @ [CHR 0xF0, CHR 0x9F, CHR 0x9A, CHR 0xA8] @ '' Command Injection vulnerability'',
      ''@app.route("/ping", methods=["GET"])'',
      ''def ping():'',
      ''    host = request.args.get("host", "127.0.0.1")'',
      ''    output = os.popen(f"ping -c 1 {host}").read()  # '' @ [CHR 0xF0, CHR 0x9F, CHR 0x9A, CHR 0xA8] @ '' unsanitized user input'',
      ''    return f"<pre>{output}</pre>"'',
      [],
      ''# '' @ [CHR 0xF0, CHR 0x9F, CHR 0x9A, CHR 0xA8] @ '' Insecure deserialization'',
      ''@app.route("/deserialize", methods=["POST"])'',
      ''def deserialize():'',
      ''    data = request.data'',
      ''    try:'',
      ''        obj = pickle.loads(base64.b64decode(data))  # '' @ [CHR 0xF0, CHR 0x9F, CHR 0x9A, CHR 0xA8] @ '' arbitrary code execution'',
      ''        return jsonify({"result": str(obj)})'',
      ''    except Exception as e:'',
      ''        return jsonify({"error": str(e)}), 400'',
      [],
      ''# '' @ [CHR 0xF0, CHR 0x9F, CHR 0x9A, CHR 0xA8] @ '' Sensitive file access'',
      ''@app.route("/readfile")'',
      ''def read_file():'',
      ''    filename = request.args.get("file", "/etc/passwd")'',
      ''    try:'',
      ''        with open(filename, "r") as f:'',
      ''            return f"<pre>{f.read()}</pre>"'',
      ''    except Exception as e:'',
      ''        return jsonify({"error": str(e)})'',
      [],
      ''if __name__ == "__main__":'',
      ''    init_db()'',
      ''    app.run(host="0.0.0.0", port=5000, debug=True)'']\<close>

definition script_text :: "string \<Rightarrow> string" where
  "script_text key = join_lines (script_lines key)"

definition installed :: "string \<Rightarrow> world \<Rightarrow> world" where
  "installed key w = boot key (w\<lparr>files := (files w)(''MoreFindings.py'' \<mapsto> script_text key)\<rparr>)"

section \<open>Fixtures\<close>

text \<open>
  A stand-in shell that raises on a command line with a NUL, as starting a process does,
  and else prints the command line it was given and changes nothing; a file system that
  reads the files of the world (the error text is that of a missing file with a plain
  name); the fragments made total by an exception of their own where they say nothing (no
  statement below runs them there); the conversion of the instance that \<open>raise_unprintable\<close>
  raises; and a world with two users.
\<close>

definition stub_shell :: "string \<Rightarrow> world \<Rightarrow> (pyexc + string) \<times> world" where
  "stub_shell cmd w =
     (if CHR 0x00 \<in> set cmd then (Inl (PyException (PyError ''embedded null byte'')), w)
      else (Inr cmd, w))"

definition fs_open_read :: "string \<Rightarrow> world \<Rightarrow> string + string" where
  "fs_open_read path w =
     (case files w path of
        Some contents \<Rightarrow> Inr contents
      | None \<Rightarrow> Inl (''[Errno 2] No such file or directory: '' @ [CHR 0x27] @ path @ [CHR 0x27]))"

definition b64decode_model :: "string \<Rightarrow> string + string" where
  "b64decode_model s =
     (case b64_fragment s of Some bytes \<Rightarrow> Inr bytes | None \<Rightarrow> Inl ''outside the fragment'')"

definition pickle_loads_model :: "string \<Rightarrow> world \<Rightarrow> (pyexc + pyobj) \<times> world" where
  "pickle_loads_model bytes w =
     (case unpickle bytes [] w of
        Some r \<Rightarrow> r
      | None \<Rightarrow> (Inl (PyException (PyError ''outside the fragment'')), w))"

definition str_model :: "pyobj \<Rightarrow> world \<Rightarrow> (pyexc + string) \<times> world" where
  "str_model x w =
     (if x = PyInstance ''E'' then (Inl (PyException (PyError ''division by zero'')), w)
      else (Inl (PyException (PyError ''outside the fragment'')), w))"

definition model_env :: env where
  "model_env = \<lparr>sql_execute = sqlite_execute, popen_read = stub_shell,
     b64decode = b64decode_model, pickle_loads = pickle_loads_model, str_obj = str_model,
     rebound_jsonify = (\<lambda>kvs w. (Inl (PyException (PyError ''outside the fragment'')), w)),
     open_read = fs_open_read\<rparr>"

definition demo_users :: table where
  "demo_users = \<lparr>columns = users_columns,
     rows = [[SqlInt 1, SqlText ''administrator'', SqlText ''s3cret''],
             [SqlInt 2, SqlText ''alice'', SqlText ''wonderland'']]\<rparr>"

definition demo_world :: world where
  "demo_world = \<lparr>db = Database [(''users'', Table demo_users)],
     files = [''/etc/hostname'' \<mapsto> ''demo''], stdout = [],
     namespace = module_namespace API_KEY\<rparr>"

definition legacy_world :: world where
  "legacy_world = demo_world\<lparr>db := Database
     [(''USERS'', Table \<lparr>columns = [(''name'', ''TEXT'')], rows = [[SqlText ''bob'']]\<rparr>)]\<rparr>"

definition indexed_world :: world where
  "indexed_world = demo_world\<lparr>db := Database
     [(''accounts'', Table \<lparr>columns = [(''name'', ''TEXT'')], rows = []\<rparr>), (''users'', Index)]\<rparr>"

definition empty_world :: world where
  "empty_world = demo_world\<lparr>db := Database []\<rparr>"

text \<open>The two answers of \<^verbatim>\<open>login\<close>.\<close>

definition success :: response where
  "success = \<lparr>status = 200, body = Json [(''message'', ''Login successful'')]\<rparr>"

definition failure :: response where
  "failure = \<lparr>status = 401, body = Json [(''message'', ''Invalid credentials'')]\<rparr>"

definition none_users :: table where
  "none_users = \<lparr>columns = users_columns, rows = [[SqlInt 3, SqlText ''None'', SqlText ''None'']]\<rparr>"

text \<open>The environment with an unpickler that returns \<^verbatim>\<open>None\<close> and runs nothing.\<close>

definition quiet_env :: env where
  "quiet_env = model_env\<lparr>pickle_loads := (\<lambda>bytes w. (Inr PyNone, w))\<rparr>"

section \<open>Facts about the fragments and the handlers\<close>

lemma lex_string_closed:
  "CHR 0x27 \<notin> set u \<Longrightarrow> (case rest of [] \<Rightarrow> True | d # _ \<Rightarrow> d \<noteq> CHR 0x27)
     \<Longrightarrow> lex_string (u @ CHR 0x27 # rest) = Some (u, rest)"
  by (induction u) (auto split: list.splits)

lemma skip_comment_no_newline:
  assumes "CHR 0x0A \<notin> set s"
  shows "skip_comment s = []"
proof -
  have h: "dropWhile (\<lambda>c. c \<noteq> CHR 0x0A) s = []"
    using assms by (auto simp: dropWhile_eq_Nil_conv)
  show ?thesis unfolding skip_comment_def h by simp
qed

lemmas char_class = is_space_def is_ident_start_def is_ident_char_def lex_cons_def

lemma lex_comment_bypass:
  assumes "CHR 0x0A \<notin> set (fmt p)"
  shows "lex (login_query (Some (''admin'' @ [CHR 0x27] @ '' --'')) p) =
    Toks [TIdent ''SELECT'', TStar, TIdent ''FROM'', TIdent ''users'',
      TIdent ''WHERE'', TIdent ''username'', TEq, TStr ''admin'']"
proof -
  have "skip_comment ([CHR 0x27] @ '' AND password='' @ [CHR 0x27] @ fmt p @ [CHR 0x27]) = []"
    using assms by (intro skip_comment_no_newline) simp
  then show ?thesis
    by (simp add: login_query_def fmt_def char_class)
qed

lemma lex_benign:
  assumes "CHR 0x27 \<notin> set u" "CHR 0x27 \<notin> set p"
  shows "lex (login_query (Some u) (Some p)) =
    Toks [TIdent ''SELECT'', TStar, TIdent ''FROM'', TIdent ''users'',
      TIdent ''WHERE'', TIdent ''username'', TEq, TStr u, TIdent ''AND'',
      TIdent ''password'', TEq, TStr p]"
proof -
  have a: "lex_string (p @ [CHR 0x27]) = Some (p, [])"
    using lex_string_closed[of p "[]"] assms by simp
  have b: "lex_string (u @ CHR 0x27 # '' AND password='' @ CHR 0x27 # p @ [CHR 0x27])
      = Some (u, '' AND password='' @ CHR 0x27 # p @ [CHR 0x27])"
    using lex_string_closed[of u "'' AND password='' @ CHR 0x27 # p @ [CHR 0x27]"] assms by simp
  show ?thesis
    using a b by (simp add: login_query_def fmt_def char_class)
qed

lemma login_query_nul:
  "CHR 0x00 \<in> set (login_query u p) \<longleftrightarrow> CHR 0x00 \<in> set (fmt u) \<or> CHR 0x00 \<in> set (fmt p)"
  by (auto simp: login_query_def)


lemma login_query_not_create: "login_query u p \<noteq> create_users_sql"
  by (simp add: login_query_def create_users_sql_def)

lemma login_query_select: "take 6 (login_query u p) = ''SELECT''"
  by (simp add: login_query_def)

lemma sqlite_comment_bypass:
  assumes "d = Database cat" "find_object cat ''users'' = Some (Table t)"
    and "columns t = users_columns" "list_all user_row (rows t)"
    and "CHR 0x0A \<notin> set (fmt p)" "CHR 0x00 \<notin> set (fmt p)"
  shows "sqlite d (login_query (Some (''admin'' @ [CHR 0x27] @ '' --'')) p) =
    Some (Rows (filter (\<lambda>r. r ! 1 = SqlText ''admin'') (rows t)), d)"
proof -
  have n: "CHR 0x00 \<notin> set (login_query (Some (''admin'' @ [CHR 0x27] @ '' --'')) p)"
    using assms(6) by (simp add: login_query_nul fmt_def)
  show ?thesis
    unfolding sqlite_def using n assms(1-4)
    by (simp add: login_query_not_create lex_comment_bypass[OF assms(5), simplified]
        parse_select_def select_users_def cond_holds_def column_index_def)
qed

lemma sqlite_benign:
  assumes "d = Database cat" "find_object cat ''users'' = Some (Table t)"
    and "columns t = users_columns" "list_all user_row (rows t)"
    and "CHR 0x27 \<notin> set u" "CHR 0x27 \<notin> set p" "CHR 0x00 \<notin> set u" "CHR 0x00 \<notin> set p"
  shows "sqlite d (login_query (Some u) (Some p)) =
    Some (Rows (filter (\<lambda>r. r ! 1 = SqlText u \<and> r ! 2 = SqlText p) (rows t)), d)"
proof -
  have n: "CHR 0x00 \<notin> set (login_query (Some u) (Some p))"
    using assms(7,8) by (simp add: login_query_nul fmt_def)
  show ?thesis
    unfolding sqlite_def using n assms(1-4)
    by (simp add: login_query_not_create lex_benign[OF assms(5,6)]
        parse_select_def select_users_def cond_holds_def column_index_def)
qed

lemma sqlite_select_keeps:
  assumes "take 6 q = ''SELECT''" "sqlite d q = Some (r, d')"
  shows "d' = d"
proof -
  from assms(1) have "q \<noteq> create_users_sql"
    by (auto simp: create_users_sql_def)
  with assms(2) show ?thesis
    by (auto simp: sqlite_def split: if_splits lexed.splits option.splits)
qed

lemma engine_ok_model_env: "engine_ok model_env"
  by (auto simp: engine_ok_def model_env_def sqlite_execute_def split: option.splits sqlres.splits)

lemma select_reads_only_model_env: "select_reads_only model_env"
  unfolding select_reads_only_def
proof (intro allI impI)
  fix d q assume s: "take 6 q = ''SELECT''"
  show "snd (sql_execute model_env d q) = d"
  proof (cases "sqlite d q")
    case None
    then show ?thesis by (simp add: model_env_def sqlite_execute_def)
  next
    case (Some a)
    obtain r d' where a: "a = (r, d')" by (cases a)
    with Some s have "d' = d" by (auto dest: sqlite_select_keeps)
    with Some a show ?thesis
      by (cases r) (simp_all add: model_env_def sqlite_execute_def)
  qed
qed

lemma engine_ok_rows:
  "engine_ok e \<Longrightarrow> sqlite d q = Some (Rows rs, d') \<Longrightarrow> sql_execute e d q = (Inr rs, d')"
  unfolding engine_ok_def by (erule allE[of _ d], erule allE[of _ q]) simp

lemma engine_ok_rejected:
  "engine_ok e \<Longrightarrow> sqlite d q = Some (Rejected, d')
     \<Longrightarrow> \<exists>t. sql_execute e d q = (Inl (PyException t), d')"
  unfolding engine_ok_def by (erule allE[of _ d], erule allE[of _ q]) simp

lemma fetchone_filter: "fetchone (filter P xs) = find P xs"
  by (induction xs) (auto simp: fetchone_def)

lemma demo_users_ok: "columns demo_users = users_columns \<and> list_all user_row (rows demo_users)"
  by (simp add: demo_users_def user_row_def)

lemma same_name_users: "same_name ''users'' ''users''"
  by (simp add: same_name_def)

lemma demo_world_users:
  "db demo_world = Database [(''users'', Table demo_users)]
   \<and> find_object [(''users'', Table demo_users)] ''users'' = Some (Table demo_users)"
  by (simp add: demo_world_def same_name_users)

lemma find_by_credentials_fst:
  "fst (find_by_credentials e u p w) =
     map_sum id fetchone (fst (sql_execute e (db w) (login_query u p)))"
  by (simp add: find_by_credentials_def Let_def split: prod.splits sum.splits)

lemma find_by_credentials_stdout:
  "stdout (snd (find_by_credentials e u p w)) =
     stdout w @ [''[DEBUG] Executing query: '' @ login_query u p]"
  by (simp add: find_by_credentials_def Let_def split: prod.splits sum.splits)

lemma find_by_credentials_db:
  "db (snd (find_by_credentials e u p w)) = snd (sql_execute e (db w) (login_query u p))"
  by (simp add: find_by_credentials_def Let_def split: prod.splits sum.splits)

lemma login_fst:
  "fst (login e form w) =
     (case fst (find_by_credentials e (form ''username'') (form ''password'') w) of
        Inl x \<Rightarrow> Inl x
      | Inr None \<Rightarrow> Inr failure
      | Inr (Some r) \<Rightarrow> Inr success)"
  by (simp add: login_def Let_def jsonify_def with_status_def success_def failure_def
      split: prod.splits sum.splits option.splits)

lemma login_snd:
  "snd (login e form w) = snd (find_by_credentials e (form ''username'') (form ''password'') w)"
  by (simp add: login_def Let_def split: prod.splits sum.splits option.splits)

lemma login_of_rows:
  assumes "fst (sql_execute e (db w) (login_query (form ''username'') (form ''password''))) = Inr rs"
  shows "fst (login e form w) = Inr (if rs = [] then failure else success)"
  using assms
  by (cases rs) (simp_all add: login_fst find_by_credentials_fst fetchone_def)

lemma login_of_error:
  assumes "fst (sql_execute e (db w) (login_query (form ''username'') (form ''password''))) = Inl x"
  shows "fst (login e form w) = Inl x"
  using assms by (simp add: login_fst find_by_credentials_fst)

lemma demo_benign:
  "\<lbrakk>CHR 0x27 \<notin> set u; CHR 0x27 \<notin> set p; CHR 0x00 \<notin> set u; CHR 0x00 \<notin> set p\<rbrakk> \<Longrightarrow>
   sqlite_execute (db demo_world) (login_query (Some u) (Some p)) =
     (Inr (filter (\<lambda>r. r ! 1 = SqlText u \<and> r ! 2 = SqlText p) (rows demo_users)), db demo_world)"
  using sqlite_benign[of "db demo_world" "[(''users'', Table demo_users)]" demo_users u p]
  by (simp add: sqlite_execute_def demo_world_def same_name_users demo_users_ok)

lemma same_name_upper: "same_name ''USERS'' ''users''"
  by (simp add: same_name_def lower_def)

lemma not_same_name_accounts: "\<not> same_name ''accounts'' ''users''"
  by (simp add: same_name_def lower_def)

lemma login_benign:
  assumes "engine_ok e"
    and "db w = Database cat" "find_object cat ''users'' = Some (Table t)"
    and "columns t = users_columns" "list_all user_row (rows t)"
    and "CHR 0x27 \<notin> set (fmt (form ''username''))" "CHR 0x27 \<notin> set (fmt (form ''password''))"
    and "CHR 0x00 \<notin> set (fmt (form ''username''))" "CHR 0x00 \<notin> set (fmt (form ''password''))"
  shows "fst (login e form w) =
     Inr (if \<exists>r \<in> set (rows t). r ! 1 = SqlText (fmt (form ''username''))
                \<and> r ! 2 = SqlText (fmt (form ''password''))
          then success else failure)"
proof -
  have q: "login_query (form ''username'') (form ''password'')
      = login_query (Some (fmt (form ''username''))) (Some (fmt (form ''password'')))"
    by (simp add: login_query_def fmt_def)
  have "sqlite (db w) (login_query (form ''username'') (form ''password'')) =
      Some (Rows (filter (\<lambda>r. r ! 1 = SqlText (fmt (form ''username''))
                \<and> r ! 2 = SqlText (fmt (form ''password''))) (rows t)), db w)"
    unfolding q using assms(2-9) by (rule sqlite_benign)
  then have "sql_execute e (db w) (login_query (form ''username'') (form ''password'')) =
      (Inr (filter (\<lambda>r. r ! 1 = SqlText (fmt (form ''username''))
                \<and> r ! 2 = SqlText (fmt (form ''password''))) (rows t)), db w)"
    using assms(1) by (rule engine_ok_rows[rotated])
  then have "fst (sql_execute e (db w) (login_query (form ''username'') (form ''password''))) =
      Inr (filter (\<lambda>r. r ! 1 = SqlText (fmt (form ''username''))
                \<and> r ! 2 = SqlText (fmt (form ''password''))) (rows t))"
    by simp
  then show ?thesis
    by (auto simp: login_of_rows filter_empty_conv)
qed

lemma login_by_engine:
  "fst (login e form w) =
     (case fst (sql_execute e (db w) (login_query (form ''username'') (form ''password''))) of
        Inl x \<Rightarrow> Inl x
      | Inr rs \<Rightarrow> Inr (if rs \<noteq> [] then success else failure))"
proof (cases "fst (sql_execute e (db w) (login_query (form ''username'') (form ''password'')))")
  case (Inl x)
  then show ?thesis by (simp add: login_of_error)
next
  case (Inr rs)
  then show ?thesis by (simp add: login_of_rows)
qed

lemma create_users_sqlite: "sqlite d create_users_sql = Some (create_users d)"
  by (simp add: sqlite_def)

lemma init_db_created:
  assumes "engine_ok e" "create_users (db w) = (Rows rs, d)"
  shows "init_db e w = (Inr (), w\<lparr>db := d\<rparr>)"
proof -
  have "sql_execute e (db w) create_users_sql = (Inr rs, d)"
    using assms by (intro engine_ok_rows) (simp_all add: create_users_sqlite)
  then show ?thesis by (simp add: init_db_def)
qed

lemma init_db_rejected:
  assumes "engine_ok e" "create_users (db w) = (Rejected, d)"
  shows "\<exists>x. init_db e w = (Inl x, w\<lparr>db := d\<rparr>)"
proof -
  have "\<exists>t. sql_execute e (db w) create_users_sql = (Inl (PyException t), d)"
    using assms by (intro engine_ok_rejected) (simp_all add: create_users_sqlite)
  then show ?thesis by (auto simp: init_db_def)
qed

lemma find_object_append:
  "find_object (cat @ cat') n = (case find_object cat n of None \<Rightarrow> find_object cat' n | Some ob \<Rightarrow> Some ob)"
  by (induction cat) auto

lemma find_object_none_filter:
  "find_object cat n = None \<longleftrightarrow> filter (\<lambda>mo. same_name (fst mo) n) cat = []"
  by (induction cat) auto

lemma keep_db: "db w = d \<Longrightarrow> w\<lparr>db := d\<rparr> = w"
  by auto

lemma init_db_cases:
  assumes "engine_ok e"
  shows "db w = Database cat \<Longrightarrow> find_object cat ''users'' = None \<Longrightarrow>
      init_db e w = (Inr (), w\<lparr>db := Database (cat @ [(''users'', Table \<lparr>columns = users_columns, rows = []\<rparr>)])\<rparr>)"
    and "db w = Database cat \<Longrightarrow> find_object cat ''users'' = Some ob \<Longrightarrow> ob \<noteq> Index \<Longrightarrow>
      init_db e w = (Inr (), w)"
    and "db w = Database cat \<Longrightarrow> find_object cat ''users'' = Some Index \<Longrightarrow>
      \<exists>x. init_db e w = (Inl x, w)"
    and "db w = NotADatabase \<Longrightarrow> \<exists>x. init_db e w = (Inl x, w)"
proof -
  show "db w = Database cat \<Longrightarrow> find_object cat ''users'' = None \<Longrightarrow>
      init_db e w = (Inr (), w\<lparr>db := Database (cat @ [(''users'', Table \<lparr>columns = users_columns, rows = []\<rparr>)])\<rparr>)"
    using assms by (intro init_db_created[where rs = "[]"]) (simp_all add: create_users_def)
  show "db w = Database cat \<Longrightarrow> find_object cat ''users'' = Some ob \<Longrightarrow> ob \<noteq> Index \<Longrightarrow>
      init_db e w = (Inr (), w)"
  proof -
    assume a: "db w = Database cat" "find_object cat ''users'' = Some ob" "ob \<noteq> Index"
    then have "create_users (db w) = (Rows [], db w)"
      by (cases ob) (simp_all add: create_users_def)
    with assms have "init_db e w = (Inr (), w\<lparr>db := db w\<rparr>)"
      by (rule init_db_created)
    then show ?thesis by simp
  qed
  show "db w = Database cat \<Longrightarrow> find_object cat ''users'' = Some Index \<Longrightarrow>
      \<exists>x. init_db e w = (Inl x, w)"
  proof -
    assume a: "db w = Database cat" "find_object cat ''users'' = Some Index"
    then have "create_users (db w) = (Rejected, db w)"
      by (simp add: create_users_def)
    with assms have "\<exists>x. init_db e w = (Inl x, w\<lparr>db := db w\<rparr>)"
      by (rule init_db_rejected)
    then show ?thesis by simp
  qed
  show "db w = NotADatabase \<Longrightarrow> \<exists>x. init_db e w = (Inl x, w)"
  proof -
    assume a: "db w = NotADatabase"
    then have "create_users (db w) = (Rejected, db w)"
      by (simp add: create_users_def)
    with assms have "\<exists>x. init_db e w = (Inl x, w\<lparr>db := db w\<rparr>)"
      by (rule init_db_rejected)
    then show ?thesis by simp
  qed
qed

lemma init_db_success_state:
  assumes "engine_ok e" "init_db e w = (Inr (), w1)"
  shows "\<exists>cat1 ob. db w1 = Database cat1 \<and> find_object cat1 ''users'' = Some ob \<and> ob \<noteq> Index"
proof (cases "db w")
  case NotADatabase
  with init_db_cases(4)[OF assms(1) NotADatabase] assms(2) show ?thesis by auto
next
  case (Database cat)
  show ?thesis
  proof (cases "find_object cat ''users''")
    case None
    with init_db_cases(1)[OF assms(1) Database None] assms(2)
    have "w1 = w\<lparr>db := Database (cat @ [(''users'', Table \<lparr>columns = users_columns, rows = []\<rparr>)])\<rparr>"
      by simp
    with None show ?thesis
      by (simp add: find_object_append same_name_users)
  next
    case (Some ob)
    show ?thesis
    proof (cases "ob = Index")
      case True
      with init_db_cases(3)[OF assms(1) Database Some[unfolded True]] assms(2) show ?thesis by auto
    next
      case False
      with init_db_cases(2)[OF assms(1) Database Some False] assms(2) have "w1 = w" by simp
      with Database Some False show ?thesis by auto
    qed
  qed
qed


lemma b64_remove: "b64_fragment ''Y29zCnJlbW92ZQooVnVzZXJzLmRiCnRSLg=='' =
    Some (''cos'' @ [CHR 0x0A] @ ''remove'' @ [CHR 0x0A] @ ''(Vusers.db'' @ [CHR 0x0A] @ ''tR.'')"
  by code_simp


lemma b64_key: "b64_fragment ''Y19fbWFpbl9fCkFQSV9LRVkKLg=='' =
    Some (''c__main__'' @ [CHR 0x0A] @ ''API_KEY'' @ [CHR 0x0A] @ ''.'')"
  by code_simp



lemma unpickle_remove:
  "db w \<noteq> Database [] \<Longrightarrow>
   unpickle (''cos'' @ [CHR 0x0A] @ ''remove'' @ [CHR 0x0A] @ ''(Vusers.db'' @ [CHR 0x0A] @ ''tR.'') [] w =
     Some (Inr PyNone, w\<lparr>db := Database []\<rparr>)"
  by (simp add: read_line_def py_call_def find_class_def plain_text_def DB_FILE_def)


lemma unpickle_key:
  "namespace w ''API_KEY'' = Some v \<Longrightarrow>
   unpickle (''c__main__'' @ [CHR 0x0A] @ ''API_KEY'' @ [CHR 0x0A] @ ''.'') [] w = Some (Inr v, w)"
  by (simp add: read_line_def find_class_def)


lemma demo_namespace:
  "namespace demo_world ''str'' = Some builtins_str
   \<and> namespace demo_world ''jsonify'' = Some flask_jsonify
   \<and> namespace demo_world ''API_KEY'' = Some (PyStr API_KEY)"
  by (simp add: demo_world_def module_namespace_def)

lemma boot_namespace:
  "namespace (boot k w) ''str'' = Some builtins_str
   \<and> namespace (boot k w) ''jsonify'' = Some flask_jsonify
   \<and> namespace (boot k w) ''API_KEY'' = Some (PyStr k)"
  by (simp add: boot_def module_namespace_def)





lemma py_str_db:
  assumes "\<forall>x w'. db (snd (str_obj e x w')) = db w'"
  shows "db (snd (py_str e x w)) = db w"
  using assms by (cases x) (simp_all add: py_str_def)

lemma call_jsonify_db:
  assumes "\<forall>k w'. db (snd (rebound_jsonify e k w')) = db w'"
  shows "db (snd (call_jsonify e kvs w)) = db w"
  using assms by (simp add: call_jsonify_def)

lemma except_clause_db:
  assumes s: "\<forall>x w'. db (snd (str_obj e x w')) = db w'"
    and j: "\<forall>k w'. db (snd (rebound_jsonify e k w')) = db w'"
  shows "db (snd (except_clause e x w)) = db w"
proof (cases x)
  case (PyBaseException n)
  then show ?thesis by (simp add: except_clause_def)
next
  case (PyException ex)
  obtain a w1 where p: "py_str e ex w = (a, w1)" by (cases "py_str e ex w")
  from py_str_db[OF s, of ex w] p have d1: "db w1 = db w" by simp
  show ?thesis
  proof (cases a)
    case (Inl y)
    with PyException p d1 show ?thesis by (simp add: except_clause_def)
  next
    case (Inr t)
    obtain b w2 where c: "call_jsonify e [(''error'', t)] w1 = (b, w2)"
      by (cases "call_jsonify e [(''error'', t)] w1")
    from call_jsonify_db[OF j, of "[(''error'', t)]" w1] c have "db w2 = db w1" by simp
    with PyException p d1 Inr c show ?thesis
      by (cases b) (simp_all add: except_clause_def)
  qed
qed

lemma deserialize_db:
  assumes l: "\<forall>b w'. db (snd (pickle_loads e b w')) = db w'"
    and s: "\<forall>x w'. db (snd (str_obj e x w')) = db w'"
    and j: "\<forall>k w'. db (snd (rebound_jsonify e k w')) = db w'"
  shows "db (snd (deserialize e data w)) = db w"
proof (cases "b64decode e data")
  case (Inl t)
  then show ?thesis by (simp add: deserialize_def except_clause_db[OF s j])
next
  case (Inr bytes)
  obtain a w1 where p: "pickle_loads e bytes w = (a, w1)" by (cases "pickle_loads e bytes w")
  from l p have d1: "db w1 = db w" by (metis snd_conv)
  show ?thesis
  proof (cases a)
    case (Inl x)
    with Inr p d1 show ?thesis by (simp add: deserialize_def except_clause_db[OF s j])
  next
    case o: (Inr obj)
    obtain b w2 where q: "py_str e obj w1 = (b, w2)" by (cases "py_str e obj w1")
    from py_str_db[OF s, of obj w1] q d1 have d2: "db w2 = db w" by simp
    show ?thesis
    proof (cases b)
      case (Inl x)
      with Inr p o q d2 show ?thesis by (simp add: deserialize_def except_clause_db[OF s j])
    next
      case t: (Inr t)
      obtain c w3 where r: "call_jsonify e [(''result'', t)] w2 = (c, w3)"
        by (cases "call_jsonify e [(''result'', t)] w2")
      from call_jsonify_db[OF j, of "[(''result'', t)]" w2] r d2 have d3: "db w3 = db w" by simp
      with Inr p o q t r show ?thesis
        by (cases c) (simp_all add: deserialize_def except_clause_db[OF s j])
    qed
  qed
qed

lemma login_db:
  assumes "select_reads_only e"
  shows "db (snd (login e form w)) = db w"
  using assms login_query_select
  by (simp add: login_snd find_by_credentials_db select_reads_only_def)

lemma user_rows_db: "db w1 = db w \<Longrightarrow> user_rows w1 = user_rows w"
  by (simp add: user_rows_def)

lemma script_text_key: "script_text a = script_text b \<longleftrightarrow> a = b"
  by (simp add: script_text_def script_lines_def join_lines_def)

lemma deserialize_key:
  "deserialize model_env ''Y19fbWFpbl9fCkFQSV9LRVkKLg=='' (boot k w)
     = (Inr \<lparr>status = 200, body = Json [(''result'', k)]\<rparr>, boot k w)"
proof -
  have a: "b64decode model_env ''Y19fbWFpbl9fCkFQSV9LRVkKLg=='' =
      Inr (''c__main__'' @ [CHR 0x0A] @ ''API_KEY'' @ [CHR 0x0A] @ ''.'')"
    by (simp add: model_env_def b64decode_model_def b64_key[simplified])
  have n: "namespace (boot k w) ''API_KEY'' = Some (PyStr k)"
    using boot_namespace by simp
  have b: "pickle_loads model_env (''c__main__'' @ [CHR 0x0A] @ ''API_KEY'' @ [CHR 0x0A] @ ''.'') (boot k w)
      = (Inr (PyStr k), boot k w)"
    by (simp add: model_env_def pickle_loads_model_def unpickle_key[OF n, simplified])
  have c: "py_str model_env (PyStr k) (boot k w) = (Inr k, boot k w)"
    using boot_namespace[of k w] by (simp add: py_str_def)
  show ?thesis
    using a b c boot_namespace[of k w] by (simp add: deserialize_def call_jsonify_def jsonify_def)
qed

section \<open>The credential check\<close>

text \<open>
  Claim C1, as amended. The user name \<^verbatim>\<open>admin' --\<close> closes the literal and comments out the
  rest of the statement, so the password is not compared: with any password that has no
  newline (which would end the comment) and no NUL, over a well-formed users table, an
  engine that agrees with the fragment makes \<^verbatim>\<open>login\<close> answer 200 with the success
  message when some row's username is exactly \<^verbatim>\<open>admin\<close>, and 401 with the failure message
  otherwise.
\<close>

theorem login_comment_bypass:
  assumes "engine_ok e"
    and "db w = Database cat" "find_object cat ''users'' = Some (Table t)"
    and "columns t = users_columns" "list_all user_row (rows t)"
    and "form ''username'' = Some (''admin'' @ [CHR 0x27] @ '' --'')"
    and "CHR 0x0A \<notin> set (fmt (form ''password''))" "CHR 0x00 \<notin> set (fmt (form ''password''))"
  shows "fst (login e form w) =
     Inr (if \<exists>r \<in> set (rows t). r ! 1 = SqlText ''admin''
          then \<lparr>status = 200, body = Json [(''message'', ''Login successful'')]\<rparr>
          else \<lparr>status = 401, body = Json [(''message'', ''Invalid credentials'')]\<rparr>)"
proof -
  let ?q = "login_query (form ''username'') (form ''password'')"
  have "sqlite (db w) ?q = Some (Rows (filter (\<lambda>r. r ! 1 = SqlText ''admin'') (rows t)), db w)"
    unfolding assms(6) using assms(2-5,7,8) by (rule sqlite_comment_bypass)
  then have "sql_execute e (db w) ?q = (Inr (filter (\<lambda>r. r ! 1 = SqlText ''admin'') (rows t)), db w)"
    using assms(1) by (rule engine_ok_rows[rotated])
  then have "fst (sql_execute e (db w) ?q) = Inr (filter (\<lambda>r. r ! 1 = SqlText ''admin'') (rows t))"
    by simp
  then show ?thesis
    by (simp add: login_of_rows success_def failure_def filter_empty_conv)
qed

theorem login_comment_bypass_witness:
  "fst (login model_env [''username'' \<mapsto> ''admin'' @ [CHR 0x27] @ '' --'', ''password'' \<mapsto> ''anything'']
        (demo_world\<lparr>db := Database
           [(''users'', Table (demo_users\<lparr>rows := [[SqlInt 7, SqlText ''admin'', SqlText ''pw'']]\<rparr>))]\<rparr>))
     = Inr \<lparr>status = 200, body = Json [(''message'', ''Login successful'')]\<rparr>"
  using login_comment_bypass[of model_env
      "demo_world\<lparr>db := Database
           [(''users'', Table (demo_users\<lparr>rows := [[SqlInt 7, SqlText ''admin'', SqlText ''pw'']]\<rparr>))]\<rparr>"
      "[(''users'', Table (demo_users\<lparr>rows := [[SqlInt 7, SqlText ''admin'', SqlText ''pw'']]\<rparr>))]"
      "demo_users\<lparr>rows := [[SqlInt 7, SqlText ''admin'', SqlText ''pw'']]\<rparr>"
      "[''username'' \<mapsto> ''admin'' @ [CHR 0x27] @ '' --'', ''password'' \<mapsto> ''anything'']"]
    engine_ok_model_env
  by (simp add: demo_users_def user_row_def fmt_def same_name_users)

text \<open>
  The claim as written asks for a username that starts with \<^verbatim>\<open>admin\<close>. The statement that
  is left after the comment compares for equality: the row of \<^verbatim>\<open>administrator\<close> does not
  match, and the answer is 401.
\<close>

theorem login_comment_bypass_counterexample:
  "rows demo_users ! 0 ! 1 = SqlText ''administrator''
   \<and> take 5 ''administrator'' = ''admin''
   \<and> fst (login model_env [''username'' \<mapsto> ''admin'' @ [CHR 0x27] @ '' --'', ''password'' \<mapsto> ''x'']
        demo_world)
     = Inr \<lparr>status = 401, body = Json [(''message'', ''Invalid credentials'')]\<rparr>"
proof -
  have "sqlite (db demo_world) (login_query (Some (''admin'' @ [CHR 0x27] @ '' --'')) (Some ''x''))
      = Some (Rows (filter (\<lambda>r. r ! 1 = SqlText ''admin'') (rows demo_users)), db demo_world)"
    by (rule sqlite_comment_bypass[where cat = "[(''users'', Table demo_users)]"])
      (simp_all add: demo_world_def same_name_users demo_users_ok fmt_def)
  then have "fst (sql_execute model_env (db demo_world)
      (login_query (Some (''admin'' @ [CHR 0x27] @ '' --'')) (Some ''x''))) = Inr []"
    by (simp add: model_env_def sqlite_execute_def demo_users_def)
  then have "fst (login model_env
      [''username'' \<mapsto> ''admin'' @ [CHR 0x27] @ '' --'', ''password'' \<mapsto> ''x''] demo_world) = Inr failure"
    using login_of_rows[of model_env demo_world
        "[''username'' \<mapsto> ''admin'' @ [CHR 0x27] @ '' --'', ''password'' \<mapsto> ''x'']" "[]"]
    by simp
  then show ?thesis
    by (simp add: failure_def demo_users_def)
qed

text \<open>
  Claim C2, as amended. When the engine executes the statement, \<^verbatim>\<open>login\<close> answers 200 with
  the success message if and only if the result set has a row, and 401 with the failure
  message otherwise; when the engine raises, the exception leaves the handler and there is
  neither answer.
\<close>

theorem login_status_follows_lookup:
  "(\<forall>rs. fst (sql_execute e (db w) (login_query (form ''username'') (form ''password''))) = Inr rs \<longrightarrow>
      fst (login e form w) =
        Inr (if rs \<noteq> [] then \<lparr>status = 200, body = Json [(''message'', ''Login successful'')]\<rparr>
             else \<lparr>status = 401, body = Json [(''message'', ''Invalid credentials'')]\<rparr>))
   \<and> (\<forall>x. fst (sql_execute e (db w) (login_query (form ''username'') (form ''password''))) = Inl x \<longrightarrow>
      fst (login e form w) = Inl x)"
  by (auto simp: login_of_rows login_of_error success_def failure_def)

theorem login_status_follows_lookup_witness:
  "fst (login model_env [''username'' \<mapsto> ''alice'', ''password'' \<mapsto> ''wonderland''] demo_world)
     = Inr \<lparr>status = 200, body = Json [(''message'', ''Login successful'')]\<rparr>
   \<and> fst (login model_env [''username'' \<mapsto> ''alice'', ''password'' \<mapsto> ''guess''] demo_world)
     = Inr \<lparr>status = 401, body = Json [(''message'', ''Invalid credentials'')]\<rparr>
   \<and> isl (fst (login model_env [''username'' \<mapsto> ''alice'', ''password'' \<mapsto> ''guess'']
        (demo_world\<lparr>db := Database []\<rparr>)))"
proof -
  have a: "fst (sql_execute model_env (db demo_world) (login_query (Some ''alice'') (Some ''wonderland'')))
      = Inr [[SqlInt 2, SqlText ''alice'', SqlText ''wonderland'']]"
    using demo_benign[of "''alice''" "''wonderland''"] by (simp add: model_env_def demo_users_def)
  have b: "fst (sql_execute model_env (db demo_world) (login_query (Some ''alice'') (Some ''guess''))) = Inr []"
    using demo_benign[of "''alice''" "''guess''"] by (simp add: model_env_def demo_users_def)
  have l: "lex (login_query (Some ''alice'') (Some ''guess'')) =
    Toks [TIdent ''SELECT'', TStar, TIdent ''FROM'', TIdent ''users'',
      TIdent ''WHERE'', TIdent ''username'', TEq, TStr ''alice'', TIdent ''AND'',
      TIdent ''password'', TEq, TStr ''guess'']"
    by (rule lex_benign) simp_all
  have c: "fst (sql_execute model_env (Database []) (login_query (Some ''alice'') (Some ''guess'')))
      = Inl (PyException (PyError ''sqlite3.OperationalError''))"
    by (simp add: model_env_def sqlite_execute_def sqlite_def l login_query_nul fmt_def
        login_query_not_create parse_select_def select_users_def)
  show ?thesis
    using login_status_follows_lookup[of model_env demo_world
        "[''username'' \<mapsto> ''alice'', ''password'' \<mapsto> ''wonderland'']"]
      login_status_follows_lookup[of model_env demo_world
        "[''username'' \<mapsto> ''alice'', ''password'' \<mapsto> ''guess'']"]
      login_status_follows_lookup[of model_env "demo_world\<lparr>db := Database []\<rparr>"
        "[''username'' \<mapsto> ''alice'', ''password'' \<mapsto> ''guess'']"]
      a b c
    by simp
qed

text \<open>
  A password that is a single quote leaves the last literal of the statement open: the
  engine rejects the statement and \<^verbatim>\<open>login\<close> raises.
\<close>

theorem login_rejected_query_counterexample:
  "sqlite (db demo_world) (login_query (Some ''a'') (Some [CHR 0x27])) = Some (Rejected, db demo_world)
   \<and> isl (fst (login model_env [''username'' \<mapsto> ''a'', ''password'' \<mapsto> [CHR 0x27]] demo_world))"
proof -
  have l: "lex (login_query (Some ''a'') (Some [CHR 0x27])) = Illegal"
    by (simp add: login_query_def fmt_def char_class)
  have s: "sqlite (db demo_world) (login_query (Some ''a'') (Some [CHR 0x27]))
      = Some (Rejected, db demo_world)"
    unfolding sqlite_def l by (simp add: login_query_nul login_query_not_create fmt_def)
  then have "fst (sql_execute model_env (db demo_world) (login_query (Some ''a'') (Some [CHR 0x27])))
      = Inl (PyException (PyError ''sqlite3.OperationalError''))"
    by (simp add: model_env_def sqlite_execute_def)
  then have "fst (login model_env [''username'' \<mapsto> ''a'', ''password'' \<mapsto> [CHR 0x27]] demo_world)
      = Inl (PyException (PyError ''sqlite3.OperationalError''))"
    using login_of_error[of model_env demo_world "[''username'' \<mapsto> ''a'', ''password'' \<mapsto> [CHR 0x27]]"]
    by simp
  with s show ?thesis by simp
qed

text \<open>
  Claim C3, as amended. For every username \<open>u\<close> and password \<open>p\<close> the text that is printed
  and executed is the template with \<open>u\<close> and \<open>p\<close> put in as they are; the lookup is the
  engine's answer to that text, of which it keeps the first row, or none when there is no
  row, and it raises when the engine raises. Where neither string has a quote or a NUL,
  over a well-formed users table and an engine that agrees with the fragment, that row is
  the first row of the table whose username is \<open>u\<close> and whose password is \<open>p\<close>.
\<close>

theorem lookup_interpolates_verbatim:
  "stdout (snd (find_by_credentials e (Some u) (Some p) w)) =
     stdout w @ [''[DEBUG] Executing query: SELECT * FROM users WHERE username='' @ [CHR 0x27] @ u
       @ [CHR 0x27] @ '' AND password='' @ [CHR 0x27] @ p @ [CHR 0x27]]
   \<and> fst (find_by_credentials e (Some u) (Some p) w) =
     map_sum id fetchone (fst (sql_execute e (db w)
       (''SELECT * FROM users WHERE username='' @ [CHR 0x27] @ u @ [CHR 0x27]
          @ '' AND password='' @ [CHR 0x27] @ p @ [CHR 0x27])))
   \<and> (engine_ok e \<and> db w = Database cat \<and> find_object cat ''users'' = Some (Table t)
        \<and> columns t = users_columns \<and> list_all user_row (rows t)
        \<and> CHR 0x27 \<notin> set u \<and> CHR 0x27 \<notin> set p \<and> CHR 0x00 \<notin> set u \<and> CHR 0x00 \<notin> set p \<longrightarrow>
      fst (find_by_credentials e (Some u) (Some p) w) =
        Inr (find (\<lambda>r. r ! 1 = SqlText u \<and> r ! 2 = SqlText p) (rows t)))"
proof (intro conjI impI)
  show "stdout (snd (find_by_credentials e (Some u) (Some p) w)) =
     stdout w @ [''[DEBUG] Executing query: SELECT * FROM users WHERE username='' @ [CHR 0x27] @ u
       @ [CHR 0x27] @ '' AND password='' @ [CHR 0x27] @ p @ [CHR 0x27]]"
    by (simp add: find_by_credentials_stdout login_query_def fmt_def)
  show "fst (find_by_credentials e (Some u) (Some p) w) =
     map_sum id fetchone (fst (sql_execute e (db w)
       (''SELECT * FROM users WHERE username='' @ [CHR 0x27] @ u @ [CHR 0x27]
          @ '' AND password='' @ [CHR 0x27] @ p @ [CHR 0x27])))"
    by (simp add: find_by_credentials_fst login_query_def fmt_def)
next
  assume h: "engine_ok e \<and> db w = Database cat \<and> find_object cat ''users'' = Some (Table t)
        \<and> columns t = users_columns \<and> list_all user_row (rows t)
        \<and> CHR 0x27 \<notin> set u \<and> CHR 0x27 \<notin> set p \<and> CHR 0x00 \<notin> set u \<and> CHR 0x00 \<notin> set p"
  then have "sqlite (db w) (login_query (Some u) (Some p)) =
      Some (Rows (filter (\<lambda>r. r ! 1 = SqlText u \<and> r ! 2 = SqlText p) (rows t)), db w)"
    by (intro sqlite_benign[where cat = cat]) simp_all
  with h have "sql_execute e (db w) (login_query (Some u) (Some p)) =
      (Inr (filter (\<lambda>r. r ! 1 = SqlText u \<and> r ! 2 = SqlText p) (rows t)), db w)"
    by (intro engine_ok_rows) simp_all
  then show "fst (find_by_credentials e (Some u) (Some p) w) =
        Inr (find (\<lambda>r. r ! 1 = SqlText u \<and> r ! 2 = SqlText p) (rows t))"
    by (simp add: find_by_credentials_fst fetchone_filter)
qed

theorem lookup_interpolates_verbatim_witness:
  "fst (find_by_credentials model_env (Some ''alice'') (Some ''wonderland'') demo_world)
     = Inr (Some [SqlInt 2, SqlText ''alice'', SqlText ''wonderland''])
   \<and> stdout (snd (find_by_credentials model_env (Some ''alice'') (Some ''wonderland'') demo_world))
     = [''[DEBUG] Executing query: SELECT * FROM users WHERE username='alice' AND password='wonderland'' @ [CHR 0x27]]"
proof -
  note t = lookup_interpolates_verbatim[of model_env "''alice''" "''wonderland''" demo_world
      "[(''users'', Table demo_users)]" demo_users]
  have h: "engine_ok model_env \<and> db demo_world = Database [(''users'', Table demo_users)]
      \<and> find_object [(''users'', Table demo_users)] ''users'' = Some (Table demo_users)
      \<and> columns demo_users = users_columns \<and> list_all user_row (rows demo_users)
      \<and> CHR 0x27 \<notin> set ''alice'' \<and> CHR 0x27 \<notin> set ''wonderland''
      \<and> CHR 0x00 \<notin> set ''alice'' \<and> CHR 0x00 \<notin> set ''wonderland''"
    using engine_ok_model_env demo_users_ok demo_world_users by simp
  from t h have a: "fst (find_by_credentials model_env (Some ''alice'') (Some ''wonderland'') demo_world)
      = Inr (find (\<lambda>r. r ! 1 = SqlText ''alice'' \<and> r ! 2 = SqlText ''wonderland'') (rows demo_users))"
    by blast
  from t have b: "stdout (snd (find_by_credentials model_env (Some ''alice'') (Some ''wonderland'')
      demo_world)) = stdout demo_world @
        [''[DEBUG] Executing query: SELECT * FROM users WHERE username='' @ [CHR 0x27] @ ''alice''
       @ [CHR 0x27] @ '' AND password='' @ [CHR 0x27] @ ''wonderland'' @ [CHR 0x27]]"
    by blast
  show ?thesis
    unfolding a b by (simp add: demo_users_def demo_world_def)
qed

text \<open>
  A password that ends in a quote leaves the last literal open: the lookup raises and
  yields neither a row nor none.
\<close>

theorem lookup_rejected_query_counterexample:
  "sqlite (db demo_world) (login_query (Some ''alice'') (Some (''wonderland'' @ [CHR 0x27])))
     = Some (Rejected, db demo_world)
   \<and> isl (fst (find_by_credentials model_env (Some ''alice'') (Some (''wonderland'' @ [CHR 0x27]))
        demo_world))"
proof -
  have l: "lex (login_query (Some ''alice'') (Some (''wonderland'' @ [CHR 0x27]))) = Illegal"
    by (simp add: login_query_def fmt_def char_class)
  have s: "sqlite (db demo_world) (login_query (Some ''alice'') (Some (''wonderland'' @ [CHR 0x27])))
      = Some (Rejected, db demo_world)"
    unfolding sqlite_def l by (simp add: login_query_nul login_query_not_create fmt_def)
  show ?thesis
    using s by (simp add: find_by_credentials_fst model_env_def sqlite_execute_def)
qed

text \<open>
  Claim C10. A form without \<^verbatim>\<open>username\<close> or without \<^verbatim>\<open>password\<close> is handled exactly as the
  form that has the four characters \<^verbatim>\<open>None\<close> in that field. With the username absent, the
  statement that is printed and given to the engine is the template with \<^verbatim>\<open>'None'\<close> for the
  username, and the answer of \<^verbatim>\<open>login\<close> is the engine's answer to that statement: 200 when
  it returns a row, 401 when it returns none, its exception when it raises; likewise for
  the password. The absence is no failure of its own: over a well-formed users table and
  an engine that agrees with the fragment, with the other field absent too or free of
  quote and NUL, \<^verbatim>\<open>login\<close> answers, with 200 exactly when a stored row has the text
  \<^verbatim>\<open>None\<close> in the place of the absent field and the other field as given.
\<close>

theorem login_absent_field_is_None:
  "login e form w =
     login e (form(''username'' \<mapsto> fmt (form ''username''), ''password'' \<mapsto> fmt (form ''password''))) w
   \<and> (form ''username'' = None \<longrightarrow>
        fst (login e form w) =
          (case fst (sql_execute e (db w)
              (''SELECT * FROM users WHERE username='None' AND password='' @ [CHR 0x27]
                 @ fmt (form ''password'') @ [CHR 0x27])) of
             Inl x \<Rightarrow> Inl x
           | Inr rs \<Rightarrow>
               Inr (if rs \<noteq> [] then \<lparr>status = 200, body = Json [(''message'', ''Login successful'')]\<rparr>
                    else \<lparr>status = 401, body = Json [(''message'', ''Invalid credentials'')]\<rparr>))
        \<and> stdout (snd (login e form w)) =
            stdout w @ [''[DEBUG] Executing query: SELECT * FROM users WHERE username='None' AND password=''
              @ [CHR 0x27] @ fmt (form ''password'') @ [CHR 0x27]])
   \<and> (form ''password'' = None \<longrightarrow>
        fst (login e form w) =
          (case fst (sql_execute e (db w)
              (''SELECT * FROM users WHERE username='' @ [CHR 0x27] @ fmt (form ''username'')
                 @ [CHR 0x27] @ '' AND password='None'' @ [CHR 0x27])) of
             Inl x \<Rightarrow> Inl x
           | Inr rs \<Rightarrow>
               Inr (if rs \<noteq> [] then \<lparr>status = 200, body = Json [(''message'', ''Login successful'')]\<rparr>
                    else \<lparr>status = 401, body = Json [(''message'', ''Invalid credentials'')]\<rparr>))
        \<and> stdout (snd (login e form w)) =
            stdout w @ [''[DEBUG] Executing query: SELECT * FROM users WHERE username='' @ [CHR 0x27]
              @ fmt (form ''username'') @ [CHR 0x27] @ '' AND password='None'' @ [CHR 0x27]])
   \<and> (engine_ok e \<and> db w = Database cat \<and> find_object cat ''users'' = Some (Table t)
        \<and> columns t = users_columns \<and> list_all user_row (rows t)
        \<and> (form ''username'' = None \<or> form ''password'' = None)
        \<and> CHR 0x27 \<notin> set (fmt (form ''username'')) \<and> CHR 0x27 \<notin> set (fmt (form ''password''))
        \<and> CHR 0x00 \<notin> set (fmt (form ''username'')) \<and> CHR 0x00 \<notin> set (fmt (form ''password'')) \<longrightarrow>
      fst (login e form w) =
        Inr (if \<exists>r \<in> set (rows t). r ! 1 = SqlText (fmt (form ''username''))
                  \<and> r ! 2 = SqlText (fmt (form ''password''))
             then \<lparr>status = 200, body = Json [(''message'', ''Login successful'')]\<rparr>
             else \<lparr>status = 401, body = Json [(''message'', ''Invalid credentials'')]\<rparr>))"
proof (intro conjI impI)
  show "login e form w =
     login e (form(''username'' \<mapsto> fmt (form ''username''), ''password'' \<mapsto> fmt (form ''password''))) w"
    by (simp add: login_def find_by_credentials_def login_query_def fmt_def)
next
  assume u: "form ''username'' = None"
  show "fst (login e form w) =
          (case fst (sql_execute e (db w)
              (''SELECT * FROM users WHERE username='None' AND password='' @ [CHR 0x27]
                 @ fmt (form ''password'') @ [CHR 0x27])) of
             Inl x \<Rightarrow> Inl x
           | Inr rs \<Rightarrow>
               Inr (if rs \<noteq> [] then \<lparr>status = 200, body = Json [(''message'', ''Login successful'')]\<rparr>
                    else \<lparr>status = 401, body = Json [(''message'', ''Invalid credentials'')]\<rparr>))"
    using u by (simp add: login_by_engine login_query_def fmt_def success_def failure_def
        split: sum.splits)
  show "stdout (snd (login e form w)) =
            stdout w @ [''[DEBUG] Executing query: SELECT * FROM users WHERE username='None' AND password=''
              @ [CHR 0x27] @ fmt (form ''password'') @ [CHR 0x27]]"
    using u by (simp add: login_snd find_by_credentials_stdout login_query_def fmt_def)
next
  assume p: "form ''password'' = None"
  show "fst (login e form w) =
          (case fst (sql_execute e (db w)
              (''SELECT * FROM users WHERE username='' @ [CHR 0x27] @ fmt (form ''username'')
                 @ [CHR 0x27] @ '' AND password='None'' @ [CHR 0x27])) of
             Inl x \<Rightarrow> Inl x
           | Inr rs \<Rightarrow>
               Inr (if rs \<noteq> [] then \<lparr>status = 200, body = Json [(''message'', ''Login successful'')]\<rparr>
                    else \<lparr>status = 401, body = Json [(''message'', ''Invalid credentials'')]\<rparr>))"
    using p by (simp add: login_by_engine login_query_def fmt_def success_def failure_def
        split: sum.splits)
  show "stdout (snd (login e form w)) =
            stdout w @ [''[DEBUG] Executing query: SELECT * FROM users WHERE username='' @ [CHR 0x27]
              @ fmt (form ''username'') @ [CHR 0x27] @ '' AND password='None'' @ [CHR 0x27]]"
    using p by (simp add: login_snd find_by_credentials_stdout login_query_def fmt_def)
next
  assume h: "engine_ok e \<and> db w = Database cat \<and> find_object cat ''users'' = Some (Table t)
        \<and> columns t = users_columns \<and> list_all user_row (rows t)
        \<and> (form ''username'' = None \<or> form ''password'' = None)
        \<and> CHR 0x27 \<notin> set (fmt (form ''username'')) \<and> CHR 0x27 \<notin> set (fmt (form ''password''))
        \<and> CHR 0x00 \<notin> set (fmt (form ''username'')) \<and> CHR 0x00 \<notin> set (fmt (form ''password''))"
  then have "fst (login e form w) =
     Inr (if \<exists>r \<in> set (rows t). r ! 1 = SqlText (fmt (form ''username''))
                \<and> r ! 2 = SqlText (fmt (form ''password''))
          then success else failure)"
    by (intro login_benign[where cat = cat]) simp_all
  then show "fst (login e form w) =
        Inr (if \<exists>r \<in> set (rows t). r ! 1 = SqlText (fmt (form ''username''))
                  \<and> r ! 2 = SqlText (fmt (form ''password''))
             then \<lparr>status = 200, body = Json [(''message'', ''Login successful'')]\<rparr>
             else \<lparr>status = 401, body = Json [(''message'', ''Invalid credentials'')]\<rparr>)"
    by (simp add: success_def failure_def)
qed

theorem login_absent_field_is_None_witness:
  "fst (login model_env Map.empty demo_world)
     = Inr \<lparr>status = 401, body = Json [(''message'', ''Invalid credentials'')]\<rparr>
   \<and> fst (login model_env Map.empty (demo_world\<lparr>db := Database [(''users'', Table none_users)]\<rparr>))
     = Inr \<lparr>status = 200, body = Json [(''message'', ''Login successful'')]\<rparr>
   \<and> stdout (snd (login model_env Map.empty demo_world))
     = [''[DEBUG] Executing query: SELECT * FROM users WHERE username='None' AND password='None'' @ [CHR 0x27]]"
proof -
  note a = login_absent_field_is_None[of model_env Map.empty demo_world
      "[(''users'', Table demo_users)]" demo_users,
      THEN conjunct2, THEN conjunct2, THEN conjunct2, rule_format]
  have 1: "fst (login model_env Map.empty demo_world)
     = Inr \<lparr>status = 401, body = Json [(''message'', ''Invalid credentials'')]\<rparr>"
    using a engine_ok_model_env demo_users_ok demo_world_users
    by (simp add: fmt_def demo_users_def)
  note b = login_absent_field_is_None[of model_env Map.empty
      "demo_world\<lparr>db := Database [(''users'', Table none_users)]\<rparr>"
      "[(''users'', Table none_users)]" none_users,
      THEN conjunct2, THEN conjunct2, THEN conjunct2, rule_format]
  have 2: "fst (login model_env Map.empty (demo_world\<lparr>db := Database [(''users'', Table none_users)]\<rparr>))
     = Inr \<lparr>status = 200, body = Json [(''message'', ''Login successful'')]\<rparr>"
    using b engine_ok_model_env
    by (simp add: fmt_def none_users_def user_row_def same_name_users)
  note c = login_absent_field_is_None[of model_env Map.empty demo_world,
      THEN conjunct2, THEN conjunct1, rule_format, THEN conjunct2]
  have 3: "stdout (snd (login model_env Map.empty demo_world))
     = [''[DEBUG] Executing query: SELECT * FROM users WHERE username='None' AND password='None'' @ [CHR 0x27]]"
    using c by (simp add: fmt_def demo_world_def)
  show ?thesis using 1 2 3 by simp
qed

section \<open>The file reader\<close>

text \<open>
  Claim C5. \<^verbatim>\<open>read_file\<close> opens the path given as \<^verbatim>\<open>file\<close> (\<^verbatim>\<open>/etc/passwd\<close> when there is
  none). When the read succeeds the answer is status 200 with the whole contents between
  \<^verbatim>\<open><pre>\<close> and \<^verbatim>\<open></pre>\<close>; when it raises, the answer is the JSON object with the exception
  text under \<^verbatim>\<open>error\<close>, also with status 200. There is always an answer and its status is
  200.
\<close>

theorem read_file_answers_200:
  "(\<forall>c. open_read e (case args ''file'' of None \<Rightarrow> ''/etc/passwd'' | Some f \<Rightarrow> f) w = Inr c \<longrightarrow>
      read_file e args w =
        (Inr \<lparr>status = 200, body = Html (''<pre>'' @ c @ ''</pre>'')\<rparr>, w))
   \<and> (\<forall>t. open_read e (case args ''file'' of None \<Rightarrow> ''/etc/passwd'' | Some f \<Rightarrow> f) w = Inl t \<longrightarrow>
      read_file e args w = (Inr \<lparr>status = 200, body = Json [(''error'', t)]\<rparr>, w))
   \<and> (\<exists>r. fst (read_file e args w) = Inr r \<and> status r = 200)"
  by (auto simp: read_file_def html_response_def jsonify_def split: sum.splits)

theorem read_file_answers_200_witness:
  "read_file model_env [''file'' \<mapsto> ''/etc/hostname''] demo_world
     = (Inr \<lparr>status = 200, body = Html ''<pre>demo</pre>''\<rparr>, demo_world)
   \<and> read_file model_env [''file'' \<mapsto> ''/nonexistent''] demo_world
     = (Inr \<lparr>status = 200,
          body = Json [(''error'', ''[Errno 2] No such file or directory: '/nonexistent'' @ [CHR 0x27])]\<rparr>,
        demo_world)"
proof -
  have a: "open_read model_env ''/etc/hostname'' demo_world = Inr ''demo''"
    by (simp add: model_env_def fs_open_read_def demo_world_def)
  have b: "open_read model_env ''/nonexistent'' demo_world
      = Inl (''[Errno 2] No such file or directory: '/nonexistent'' @ [CHR 0x27])"
    by (simp add: model_env_def fs_open_read_def demo_world_def)
  show ?thesis
    using read_file_answers_200[of model_env "[''file'' \<mapsto> ''/etc/hostname'']" demo_world]
      read_file_answers_200[of model_env "[''file'' \<mapsto> ''/nonexistent'']" demo_world] a b
    by simp
qed

section \<open>The host probe\<close>

text \<open>
  Claim C8, as amended. Without a \<^verbatim>\<open>host\<close> parameter the command is
  \<^verbatim>\<open>ping -c 1 127.0.0.1\<close>; with a host \<open>h\<close> it is \<^verbatim>\<open>ping -c 1\<close>, a blank and \<open>h\<close> as it is.
  When running the command and reading its output returns, the answer is status 200 with
  the output between \<^verbatim>\<open><pre>\<close> and \<^verbatim>\<open></pre>\<close>; when it raises, the exception leaves the
  handler. The world is the one the call left.
\<close>

theorem ping_interpolates_host:
  "(args ''host'' = None \<longrightarrow>
      ping e args w =
        (case popen_read e ''ping -c 1 127.0.0.1'' w of
           (Inl x, w1) \<Rightarrow> (Inl x, w1)
         | (Inr out, w1) \<Rightarrow>
             (Inr \<lparr>status = 200, body = Html (''<pre>'' @ out @ ''</pre>'')\<rparr>, w1)))
   \<and> (\<forall>h. args ''host'' = Some h \<longrightarrow>
      ping e args w =
        (case popen_read e (''ping -c 1 '' @ h) w of
           (Inl x, w1) \<Rightarrow> (Inl x, w1)
         | (Inr out, w1) \<Rightarrow>
             (Inr \<lparr>status = 200, body = Html (''<pre>'' @ out @ ''</pre>'')\<rparr>, w1)))"
  by (auto simp: ping_def html_response_def split: prod.splits sum.splits)

theorem ping_interpolates_host_witness:
  "ping model_env Map.empty demo_world
     = (Inr \<lparr>status = 200, body = Html ''<pre>ping -c 1 127.0.0.1</pre>''\<rparr>, demo_world)
   \<and> ping model_env [''host'' \<mapsto> ''example.org; id''] demo_world
     = (Inr \<lparr>status = 200, body = Html ''<pre>ping -c 1 example.org; id</pre>''\<rparr>, demo_world)"
  using ping_interpolates_host[of Map.empty model_env demo_world]
    ping_interpolates_host[of "[''host'' \<mapsto> ''example.org; id'']" model_env demo_world]
  by (simp add: model_env_def stub_shell_def)

text \<open>
  A host that is one NUL character: the process cannot be started with such a command
  line, \<^verbatim>\<open>os.popen\<close> raises \<^verbatim>\<open>ValueError\<close>, and there is no answer with status 200.
\<close>

theorem ping_nul_host_counterexample:
  "ping model_env [''host'' \<mapsto> [CHR 0x00]] demo_world
     = (Inl (PyException (PyError ''embedded null byte'')), demo_world)"
  by (simp add: ping_def model_env_def stub_shell_def)

section \<open>Schema initialisation\<close>

text \<open>
  Claim C6, as amended. With an engine that agrees with the fragment: on a database with
  no object named \<^verbatim>\<open>users\<close> (in any letter case) \<^verbatim>\<open>init_db\<close> adds the users table with the
  three columns and no rows; beside a table or a view of that name it changes nothing; in
  both cases it raises nothing, a second call raises nothing and leaves the state of the
  first, and the users table has the three columns when it was missing or had them at the
  start, one object of that name being there after a creation. Beside an index of that
  name, and on a file that is not a database, \<^verbatim>\<open>init_db\<close> raises and changes nothing.
\<close>

theorem init_db_idempotent:
  assumes "engine_ok e"
  shows
  "(\<forall>cat. db w = Database cat \<and> find_object cat ''users'' = None \<longrightarrow>
      init_db e w =
        (Inr (), w\<lparr>db := Database (cat @ [(''users'', Table \<lparr>columns = users_columns, rows = []\<rparr>)])\<rparr>))
   \<and> (\<forall>cat ob. db w = Database cat \<and> find_object cat ''users'' = Some ob \<and> ob \<noteq> Index \<longrightarrow>
      init_db e w = (Inr (), w))
   \<and> (\<forall>cat. db w = Database cat \<and> find_object cat ''users'' = Some Index \<longrightarrow>
      (\<exists>x. init_db e w = (Inl x, w)))
   \<and> (db w = NotADatabase \<longrightarrow> (\<exists>x. init_db e w = (Inl x, w)))
   \<and> (\<forall>w1. init_db e w = (Inr (), w1) \<longrightarrow> init_db e w1 = (Inr (), w1))
   \<and> (\<forall>x w1. init_db e w = (Inl x, w1) \<longrightarrow> w1 = w)
   \<and> (\<forall>w1 cat. init_db e w = (Inr (), w1) \<and> db w = Database cat
        \<and> (find_object cat ''users'' = None
           \<or> (\<exists>t. find_object cat ''users'' = Some (Table t) \<and> columns t = users_columns)) \<longrightarrow>
      (\<exists>cat1 t1. db w1 = Database cat1 \<and> find_object cat1 ''users'' = Some (Table t1)
         \<and> columns t1 = users_columns))
   \<and> (\<forall>w1 cat. init_db e w = (Inr (), w1) \<and> db w = Database cat
        \<and> find_object cat ''users'' = None \<longrightarrow>
      (\<exists>cat1. db w1 = Database cat1
         \<and> length (filter (\<lambda>mo. same_name (fst mo) ''users'') cat1) = 1))"
proof (intro conjI allI impI)
  fix cat assume "db w = Database cat \<and> find_object cat ''users'' = None"
  then show "init_db e w =
        (Inr (), w\<lparr>db := Database (cat @ [(''users'', Table \<lparr>columns = users_columns, rows = []\<rparr>)])\<rparr>)"
    using init_db_cases(1)[OF assms] by blast
next
  fix cat ob assume "db w = Database cat \<and> find_object cat ''users'' = Some ob \<and> ob \<noteq> Index"
  then show "init_db e w = (Inr (), w)"
    using init_db_cases(2)[OF assms] by blast
next
  fix cat assume "db w = Database cat \<and> find_object cat ''users'' = Some Index"
  then show "\<exists>x. init_db e w = (Inl x, w)"
    using init_db_cases(3)[OF assms] by blast
next
  assume "db w = NotADatabase"
  then show "\<exists>x. init_db e w = (Inl x, w)"
    using init_db_cases(4)[OF assms] by blast
next
  fix w1 assume a: "init_db e w = (Inr (), w1)"
  from init_db_success_state[OF assms a] obtain cat1 ob
    where "db w1 = Database cat1" "find_object cat1 ''users'' = Some ob" "ob \<noteq> Index"
    by blast
  then show "init_db e w1 = (Inr (), w1)"
    by (rule init_db_cases(2)[OF assms])
next
  fix x w1 assume a: "init_db e w = (Inl x, w1)"
  show "w1 = w"
  proof (cases "db w")
    case NotADatabase
    with init_db_cases(4)[OF assms NotADatabase] a show ?thesis by auto
  next
    case (Database cat)
    show ?thesis
    proof (cases "find_object cat ''users''")
      case None
      with init_db_cases(1)[OF assms Database None] a show ?thesis by simp
    next
      case (Some ob)
      show ?thesis
      proof (cases "ob = Index")
        case True
        with init_db_cases(3)[OF assms Database Some[unfolded True]] a show ?thesis by auto
      next
        case False
        with init_db_cases(2)[OF assms Database Some False] a show ?thesis by simp
      qed
    qed
  qed
next
  fix w1 cat
  assume a: "init_db e w = (Inr (), w1) \<and> db w = Database cat
        \<and> (find_object cat ''users'' = None
           \<or> (\<exists>t. find_object cat ''users'' = Some (Table t) \<and> columns t = users_columns))"
  then have d: "db w = Database cat" and i: "init_db e w = (Inr (), w1)" by simp_all
  from a consider "find_object cat ''users'' = None"
    | t where "find_object cat ''users'' = Some (Table t)" "columns t = users_columns"
    by auto
  then show "\<exists>cat1 t1. db w1 = Database cat1 \<and> find_object cat1 ''users'' = Some (Table t1)
         \<and> columns t1 = users_columns"
  proof cases
    case 1
    with init_db_cases(1)[OF assms d] i
    have "w1 = w\<lparr>db := Database (cat @ [(''users'', Table \<lparr>columns = users_columns, rows = []\<rparr>)])\<rparr>"
      by simp
    with 1 show ?thesis
      by (simp add: find_object_append same_name_users)
  next
    case 2
    with init_db_cases(2)[OF assms d, of "Table t"] i have "w1 = w" by simp
    with 2 d show ?thesis by auto
  qed
next
  fix w1 cat
  assume a: "init_db e w = (Inr (), w1) \<and> db w = Database cat \<and> find_object cat ''users'' = None"
  with init_db_cases(1)[OF assms, of w cat]
  have "w1 = w\<lparr>db := Database (cat @ [(''users'', Table \<lparr>columns = users_columns, rows = []\<rparr>)])\<rparr>"
    by simp
  moreover from a have "filter (\<lambda>mo. same_name (fst mo) ''users'') cat = []"
    by (simp add: find_object_none_filter)
  ultimately show "\<exists>cat1. db w1 = Database cat1
         \<and> length (filter (\<lambda>mo. same_name (fst mo) ''users'') cat1) = 1"
    by (simp add: same_name_users)
qed

theorem init_db_idempotent_witness:
  "init_db model_env empty_world =
     (Inr (), empty_world\<lparr>db := Database [(''users'', Table \<lparr>columns = users_columns, rows = []\<rparr>)]\<rparr>)
   \<and> init_db model_env
       (empty_world\<lparr>db := Database [(''users'', Table \<lparr>columns = users_columns, rows = []\<rparr>)]\<rparr>) =
     (Inr (), empty_world\<lparr>db := Database [(''users'', Table \<lparr>columns = users_columns, rows = []\<rparr>)]\<rparr>)
   \<and> init_db model_env demo_world = (Inr (), demo_world)"
proof -
  note t = init_db_idempotent[OF engine_ok_model_env]
  have e: "db empty_world = Database [] \<and> find_object [] ''users'' = None"
    by (simp add: empty_world_def)
  from t[of empty_world, THEN conjunct1, rule_format, OF e]
  have 1: "init_db model_env empty_world =
     (Inr (), empty_world\<lparr>db := Database [(''users'', Table \<lparr>columns = users_columns, rows = []\<rparr>)]\<rparr>)"
    by simp
  from t[of empty_world, THEN conjunct2, THEN conjunct2, THEN conjunct2, THEN conjunct2,
      THEN conjunct1, rule_format, OF 1]
  have 2: "init_db model_env
       (empty_world\<lparr>db := Database [(''users'', Table \<lparr>columns = users_columns, rows = []\<rparr>)]\<rparr>) =
     (Inr (), empty_world\<lparr>db := Database [(''users'', Table \<lparr>columns = users_columns, rows = []\<rparr>)]\<rparr>)" .
  have d: "db demo_world = Database [(''users'', Table demo_users)]
      \<and> find_object [(''users'', Table demo_users)] ''users'' = Some (Table demo_users)
      \<and> Table demo_users \<noteq> Index"
    using demo_world_users by simp
  from t[of demo_world, THEN conjunct2, THEN conjunct1, rule_format, OF d]
  have 3: "init_db model_env demo_world = (Inr (), demo_world)" .
  show ?thesis using 1 2 3 by simp
qed

text \<open>
  A table \<^verbatim>\<open>USERS\<close> with one column \<^verbatim>\<open>name\<close> is left as it is, so that there is no users
  table with the three columns after the call; and beside an index named \<^verbatim>\<open>users\<close> the
  call raises.
\<close>

theorem init_db_foreign_schema_or_index_counterexample:
  "init_db model_env legacy_world = (Inr (), legacy_world)
   \<and> db legacy_world = Database
       [(''USERS'', Table \<lparr>columns = [(''name'', ''TEXT'')], rows = [[SqlText ''bob'']]\<rparr>)]
   \<and> [(''name'', ''TEXT'')] \<noteq> users_columns
   \<and> isl (fst (init_db model_env indexed_world))
   \<and> snd (init_db model_env indexed_world) = indexed_world"
proof -
  have l: "create_users (db legacy_world) = (Rows [], db legacy_world)"
    by (simp add: create_users_def legacy_world_def same_name_upper)
  have i: "create_users (db indexed_world) = (Rejected, db indexed_world)"
    by (simp add: create_users_def indexed_world_def not_same_name_accounts same_name_users)
  have 1: "init_db model_env legacy_world = (Inr (), legacy_world)"
    using init_db_created[OF engine_ok_model_env l] by simp
  from init_db_rejected[OF engine_ok_model_env i]
  have 2: "isl (fst (init_db model_env indexed_world)) \<and> snd (init_db model_env indexed_world) = indexed_world"
    by auto
  show ?thesis
    using 1 2 by (simp add: legacy_world_def users_columns_def)
qed

section \<open>The deserializer\<close>




section \<open>The routes and the stored rows\<close>

text \<open>
  Claim C7, as amended. The handlers of \<^verbatim>\<open>/\<close> and \<^verbatim>\<open>/readfile\<close> leave the database, and so
  the rows of the users table, as they are. The handler of \<^verbatim>\<open>/login\<close> leaves the database as
  its one statement leaves it, and that statement begins with \<^verbatim>\<open>SELECT\<close>: with an engine
  that writes nothing for such a statement the rows are unchanged. The handlers of
  \<^verbatim>\<open>/ping\<close> and \<^verbatim>\<open>/deserialize\<close> write nothing themselves: after \<^verbatim>\<open>/ping\<close> the world is the one
  the shell command left, and \<^verbatim>\<open>/deserialize\<close> leaves the rows unchanged when the unpickler,
  the conversions and a rebound \<^verbatim>\<open>jsonify\<close> do.
\<close>

theorem routes_and_the_store:
  "db (snd (app e GetHome w)) = db w
   \<and> user_rows (snd (app e GetHome w)) = user_rows w
   \<and> db (snd (app e (GetReadfile args) w)) = db w
   \<and> user_rows (snd (app e (GetReadfile args) w)) = user_rows w
   \<and> (select_reads_only e \<longrightarrow>
        db (snd (app e (PostLogin form) w)) = db w
        \<and> user_rows (snd (app e (PostLogin form) w)) = user_rows w)
   \<and> db (snd (app e (PostLogin form) w)) =
       snd (sql_execute e (db w) (login_query (form ''username'') (form ''password'')))
   \<and> snd (app e (GetPing args) w) =
       snd (popen_read e
         (''ping -c 1 '' @ (case args ''host'' of None \<Rightarrow> ''127.0.0.1'' | Some h \<Rightarrow> h)) w)
   \<and> ((\<forall>b w'. db (snd (pickle_loads e b w')) = db w')
        \<and> (\<forall>x w'. db (snd (str_obj e x w')) = db w')
        \<and> (\<forall>k w'. db (snd (rebound_jsonify e k w')) = db w') \<longrightarrow>
        db (snd (app e (PostDeserialize data) w)) = db w
        \<and> user_rows (snd (app e (PostDeserialize data) w)) = user_rows w)"
proof (intro conjI impI)
  show "db (snd (app e GetHome w)) = db w" by simp
  show "user_rows (snd (app e GetHome w)) = user_rows w" by simp
  show r: "db (snd (app e (GetReadfile args) w)) = db w"
    by (simp add: read_file_def split: sum.splits)
  show "user_rows (snd (app e (GetReadfile args) w)) = user_rows w"
    using r by (rule user_rows_db)
  show "db (snd (app e (PostLogin form) w)) =
       snd (sql_execute e (db w) (login_query (form ''username'') (form ''password'')))"
    by (simp add: login_snd find_by_credentials_db)
  show "snd (app e (GetPing args) w) =
       snd (popen_read e
         (''ping -c 1 '' @ (case args ''host'' of None \<Rightarrow> ''127.0.0.1'' | Some h \<Rightarrow> h)) w)"
    by (simp add: ping_def split: prod.splits sum.splits)
next
  assume s: "select_reads_only e"
  then show l: "db (snd (app e (PostLogin form) w)) = db w"
    by (simp add: login_db)
  show "user_rows (snd (app e (PostLogin form) w)) = user_rows w"
    using l by (rule user_rows_db)
next
  assume a: "(\<forall>b w'. db (snd (pickle_loads e b w')) = db w')
        \<and> (\<forall>x w'. db (snd (str_obj e x w')) = db w')
        \<and> (\<forall>k w'. db (snd (rebound_jsonify e k w')) = db w')"
  then show d: "db (snd (app e (PostDeserialize data) w)) = db w"
    by (simp add: deserialize_db)
  show "user_rows (snd (app e (PostDeserialize data) w)) = user_rows w"
    using d by (rule user_rows_db)
qed

theorem routes_and_the_store_witness:
  "user_rows (snd (app model_env (PostLogin [''username'' \<mapsto> ''alice'', ''password'' \<mapsto> ''guess''])
      demo_world)) = set (rows demo_users)
   \<and> user_rows (snd (app quiet_env (PostDeserialize ''Y29zCnJlbW92ZQooVnVzZXJzLmRiCnRSLg=='')
      demo_world)) = set (rows demo_users)"
proof -
  have u: "user_rows demo_world = set (rows demo_users)"
    by (simp add: user_rows_def demo_world_def same_name_users)
  note t = routes_and_the_store[where e = model_env and w = demo_world
      and form = "[''username'' \<mapsto> ''alice'', ''password'' \<mapsto> ''guess'']",
      THEN conjunct2, THEN conjunct2, THEN conjunct2, THEN conjunct2, THEN conjunct1, rule_format,
      OF select_reads_only_model_env, THEN conjunct2]
  have q: "(\<forall>b w'. db (snd (pickle_loads quiet_env b w')) = db w')
        \<and> (\<forall>x w'. db (snd (str_obj quiet_env x w')) = db w')
        \<and> (\<forall>k w'. db (snd (rebound_jsonify quiet_env k w')) = db w')"
    by (simp add: quiet_env_def model_env_def str_model_def)
  note t2 = routes_and_the_store[where e = quiet_env and w = demo_world
      and data = "''Y29zCnJlbW92ZQooVnVzZXJzLmRiCnRSLg==''",
      THEN conjunct2, THEN conjunct2, THEN conjunct2, THEN conjunct2, THEN conjunct2,
      THEN conjunct2, THEN conjunct2, rule_format, OF q, THEN conjunct2]
  show ?thesis using t t2 u by simp
qed

text \<open>
  The body is the base64 text of the pickle \<^verbatim>\<open>cos\nremove\n(Vusers.db\ntR.\<close>, which calls
  \<^verbatim>\<open>os.remove("users.db")\<close>: the answer is 200 and the two stored rows are gone.
\<close>

theorem deserialize_deletes_users_counterexample:
  "app model_env (PostDeserialize ''Y29zCnJlbW92ZQooVnVzZXJzLmRiCnRSLg=='') demo_world
     = (Inr \<lparr>status = 200, body = Json [(''result'', ''None'')]\<rparr>, demo_world\<lparr>db := Database []\<rparr>)
   \<and> user_rows demo_world = set (rows demo_users)
   \<and> user_rows (demo_world\<lparr>db := Database []\<rparr>) = {}
   \<and> rows demo_users \<noteq> []"
proof -
  have u: "db demo_world \<noteq> Database []"
    by (simp add: demo_world_def)
  have a: "b64decode model_env ''Y29zCnJlbW92ZQooVnVzZXJzLmRiCnRSLg=='' =
      Inr (''cos'' @ [CHR 0x0A] @ ''remove'' @ [CHR 0x0A] @ ''(Vusers.db'' @ [CHR 0x0A] @ ''tR.'')"
    by (simp add: model_env_def b64decode_model_def b64_remove[simplified])
  have b: "pickle_loads model_env
      (''cos'' @ [CHR 0x0A] @ ''remove'' @ [CHR 0x0A] @ ''(Vusers.db'' @ [CHR 0x0A] @ ''tR.'') demo_world
      = (Inr PyNone, demo_world\<lparr>db := Database []\<rparr>)"
    by (simp add: model_env_def pickle_loads_model_def unpickle_remove[OF u, simplified])
  have n: "namespace (demo_world\<lparr>db := Database []\<rparr>) ''str'' = Some builtins_str
      \<and> namespace (demo_world\<lparr>db := Database []\<rparr>) ''jsonify'' = Some flask_jsonify"
    using demo_namespace by simp
  have c: "py_str model_env PyNone (demo_world\<lparr>db := Database []\<rparr>)
      = (Inr ''None'', demo_world\<lparr>db := Database []\<rparr>)"
    using n by (simp add: py_str_def)
  have 1: "app model_env (PostDeserialize ''Y29zCnJlbW92ZQooVnVzZXJzLmRiCnRSLg=='') demo_world
     = (Inr \<lparr>status = 200, body = Json [(''result'', ''None'')]\<rparr>, demo_world\<lparr>db := Database []\<rparr>)"
    using a b c n by (simp add: deserialize_def call_jsonify_def jsonify_def)
  have 2: "user_rows demo_world = set (rows demo_users)
      \<and> user_rows (demo_world\<lparr>db := Database []\<rparr>) = {} \<and> rows demo_users \<noteq> []"
    by (simp add: user_rows_def demo_world_def demo_users_def same_name_users)
  show ?thesis using 1 2 by (rule conjI)
qed

section \<open>The secret constant\<close>

text \<open>
  Claim C9, as amended. No handler reads the constant itself. For any two values of it the
  answers of \<^verbatim>\<open>/\<close> and of \<^verbatim>\<open>/login\<close> are the same, for every request; the answer of
  \<^verbatim>\<open>/readfile\<close> is the same when reading the file gives the same in the two runs, and the
  answer of \<^verbatim>\<open>/ping\<close> is the same when running the command gives the same in the two runs.
\<close>

theorem responses_independent_of_key:
  "fst (app e GetHome (boot k1 w)) = fst (app e GetHome (boot k2 w))
   \<and> fst (app e (PostLogin form) (boot k1 w)) = fst (app e (PostLogin form) (boot k2 w))
   \<and> (open_read e (case args ''file'' of None \<Rightarrow> ''/etc/passwd'' | Some f \<Rightarrow> f) (boot k1 w)
        = open_read e (case args ''file'' of None \<Rightarrow> ''/etc/passwd'' | Some f \<Rightarrow> f) (boot k2 w) \<longrightarrow>
      fst (app e (GetReadfile args) (boot k1 w)) = fst (app e (GetReadfile args) (boot k2 w)))
   \<and> (fst (popen_read e
          (''ping -c 1 '' @ (case args ''host'' of None \<Rightarrow> ''127.0.0.1'' | Some h \<Rightarrow> h)) (boot k1 w))
        = fst (popen_read e
          (''ping -c 1 '' @ (case args ''host'' of None \<Rightarrow> ''127.0.0.1'' | Some h \<Rightarrow> h)) (boot k2 w)) \<longrightarrow>
      fst (app e (GetPing args) (boot k1 w)) = fst (app e (GetPing args) (boot k2 w)))"
proof (intro conjI impI)
  show "fst (app e GetHome (boot k1 w)) = fst (app e GetHome (boot k2 w))" by simp
  show "fst (app e (PostLogin form) (boot k1 w)) = fst (app e (PostLogin form) (boot k2 w))"
    by (simp add: login_fst find_by_credentials_fst boot_def)
next
  assume "open_read e (case args ''file'' of None \<Rightarrow> ''/etc/passwd'' | Some f \<Rightarrow> f) (boot k1 w)
        = open_read e (case args ''file'' of None \<Rightarrow> ''/etc/passwd'' | Some f \<Rightarrow> f) (boot k2 w)"
  then show "fst (app e (GetReadfile args) (boot k1 w)) = fst (app e (GetReadfile args) (boot k2 w))"
    by (simp add: read_file_def split: sum.splits)
next
  let ?c = "''ping -c 1 '' @ (case args ''host'' of None \<Rightarrow> ''127.0.0.1'' | Some h \<Rightarrow> h)"
  assume a: "fst (popen_read e ?c (boot k1 w)) = fst (popen_read e ?c (boot k2 w))"
  have p: "\<And>v. fst (ping e args v) =
      (case fst (popen_read e ?c v) of Inl x \<Rightarrow> Inl x
       | Inr out \<Rightarrow> Inr (html_response (''<pre>'' @ out @ ''</pre>'')))"
    by (simp add: ping_def split: prod.splits sum.splits)
  show "fst (app e (GetPing args) (boot k1 w)) = fst (app e (GetPing args) (boot k2 w))"
    using a by (simp add: p)
qed

theorem responses_independent_of_key_witness:
  "fst (app model_env (GetReadfile [''file'' \<mapsto> ''/etc/hostname'']) (boot ''12345-SECRET-KEY'' demo_world))
     = fst (app model_env (GetReadfile [''file'' \<mapsto> ''/etc/hostname'']) (boot ''another-key'' demo_world))
   \<and> fst (app model_env (GetPing [''host'' \<mapsto> ''10.0.0.1'']) (boot ''12345-SECRET-KEY'' demo_world))
     = fst (app model_env (GetPing [''host'' \<mapsto> ''10.0.0.1'']) (boot ''another-key'' demo_world))"
proof -
  note t = responses_independent_of_key[where e = model_env and ?k1.0 = "''12345-SECRET-KEY''"
      and w = demo_world and ?k2.0 = "''another-key''"
      and args = "[''file'' \<mapsto> ''/etc/hostname'']",
      THEN conjunct2, THEN conjunct2, THEN conjunct1, rule_format]
  have 1: "fst (app model_env (GetReadfile [''file'' \<mapsto> ''/etc/hostname'']) (boot ''12345-SECRET-KEY'' demo_world))
     = fst (app model_env (GetReadfile [''file'' \<mapsto> ''/etc/hostname'']) (boot ''another-key'' demo_world))"
    by (rule t) (simp add: model_env_def fs_open_read_def boot_def)
  note t2 = responses_independent_of_key[where e = model_env and ?k1.0 = "''12345-SECRET-KEY''"
      and w = demo_world and ?k2.0 = "''another-key''"
      and args = "[''host'' \<mapsto> ''10.0.0.1'']",
      THEN conjunct2, THEN conjunct2, THEN conjunct2, rule_format]
  have 2: "fst (app model_env (GetPing [''host'' \<mapsto> ''10.0.0.1'']) (boot ''12345-SECRET-KEY'' demo_world))
     = fst (app model_env (GetPing [''host'' \<mapsto> ''10.0.0.1'']) (boot ''another-key'' demo_world))"
    by (rule t2) (simp add: model_env_def stub_shell_def)
  show ?thesis using 1 2 by (rule conjI)
qed

text \<open>
  The constant is a global of the running module and a line of its file. The body is the
  base64 text of the pickle \<^verbatim>\<open>c__main__\nAPI_KEY\n.\<close>, whose object is the value of the
  global: \<^verbatim>\<open>/deserialize\<close> answers with the constant, in the same files and database. And
  \<^verbatim>\<open>/readfile\<close> returns the module's own file.
\<close>

theorem key_revealed_counterexample:
  "fst (app model_env (PostDeserialize ''Y19fbWFpbl9fCkFQSV9LRVkKLg=='') (boot ''12345-SECRET-KEY'' demo_world))
     = Inr \<lparr>status = 200, body = Json [(''result'', ''12345-SECRET-KEY'')]\<rparr>
   \<and> fst (app model_env (PostDeserialize ''Y19fbWFpbl9fCkFQSV9LRVkKLg=='') (boot ''another-key'' demo_world))
     = Inr \<lparr>status = 200, body = Json [(''result'', ''another-key'')]\<rparr>
   \<and> fst (app model_env (GetReadfile [''file'' \<mapsto> ''MoreFindings.py''])
          (installed ''12345-SECRET-KEY'' demo_world))
     \<noteq> fst (app model_env (GetReadfile [''file'' \<mapsto> ''MoreFindings.py''])
          (installed ''another-key'' demo_world))"
proof -
  have 1: "fst (app model_env (GetReadfile [''file'' \<mapsto> ''MoreFindings.py''])
          (installed ''12345-SECRET-KEY'' demo_world))
     \<noteq> fst (app model_env (GetReadfile [''file'' \<mapsto> ''MoreFindings.py''])
          (installed ''another-key'' demo_world))"
    by (simp add: read_file_def model_env_def fs_open_read_def installed_def boot_def
        html_response_def script_text_key)
  show ?thesis
    using 1 by (simp add: deserialize_key)
qed

end
